theory Spec2Isabelle
  imports Main "HOL-Library.Sublist"
begin

section \<open>JavaScript strings\<close>

text \<open>
  A JavaScript string is modelled as a \<^typ>\<open>string\<close>: a list of code units, of which
  only those below 256 are represented. The helpers below are the String.prototype
  methods that \<^verbatim>\<open>src/utils/rclone.js\<close> calls.
\<close>

definition nl :: char where
  "nl = CHR 0x0A"

definition cr :: char where
  "cr = CHR 0x0D"

text \<open>\<^verbatim>\<open>s.indexOf(c)\<close>: the index of the first occurrence, or -1.\<close>

definition indexOf :: "string \<Rightarrow> char \<Rightarrow> int" where
  "indexOf s c = (if c \<in> set s then int (length (takeWhile (\<lambda>x. x \<noteq> c) s)) else - 1)"

text \<open>\<^verbatim>\<open>s.slice(0, n)\<close> and \<^verbatim>\<open>s.slice(n)\<close> for \<open>n \<ge> 0\<close>.\<close>

definition slice_to :: "string \<Rightarrow> int \<Rightarrow> string" where
  "slice_to s n = take (nat n) s"

definition slice_from :: "string \<Rightarrow> int \<Rightarrow> string" where
  "slice_from s n = drop (nat n) s"

text \<open>\<^verbatim>\<open>s.startsWith(p)\<close> and \<^verbatim>\<open>s.includes(p)\<close>.\<close>

definition startsWith :: "string \<Rightarrow> string \<Rightarrow> bool" where
  "startsWith s p = prefix p s"

fun str_includes :: "string \<Rightarrow> string \<Rightarrow> bool" where
  "str_includes [] p = (p = [])"
| "str_includes (c # cs) p = (prefix p (c # cs) \<or> str_includes cs p)"

section \<open>streamReadlineHandler: the line framer\<close>

text \<open>
  \<^verbatim>\<open>
  function streamReadlineHandler(stream, callback) {
      let backlog = '';
      stream.on('data', (data) => {
          backlog += data;
          let n = backlog.indexOf('\n');
          while (~n) {
              callback(backlog.slice(0, n));
              backlog = backlog.slice(n + 1);
              n = backlog.indexOf('\n');
          }
      });
      stream.on('end', () => { if (backlog) { callback(backlog); } });
  }
  \<close>
  The state is the backlog together with the lines handed to the callback so far.
  \<open>~n\<close> is truthy exactly when \<open>n \<noteq> -1\<close>.
\<close>

type_synonym framer = "string \<times> string list"

function while_newline :: "string \<Rightarrow> string list \<Rightarrow> framer" where
  "while_newline backlog out =
     (if indexOf backlog nl \<noteq> - 1
      then while_newline (slice_from backlog (indexOf backlog nl + 1))
             (out @ [slice_to backlog (indexOf backlog nl)])
      else (backlog, out))"
  by pat_completeness auto
termination
proof (relation "measure (\<lambda>(backlog, out). length backlog)")
  show "wf (measure (\<lambda>(backlog, out). length backlog))" by simp
next
  fix backlog :: string and out :: "string list"
  assume "indexOf backlog nl \<noteq> - 1"
  then have "nl \<in> set backlog"
    by (simp add: indexOf_def split: if_splits)
  then have "backlog \<noteq> []" by auto
  then show "((slice_from backlog (indexOf backlog nl + 1), out @ [slice_to backlog (indexOf backlog nl)]),
               (backlog, out)) \<in> measure (\<lambda>(backlog, out). length backlog)"
    using \<open>nl \<in> set backlog\<close> by (simp add: slice_from_def indexOf_def nat_add_distrib)
qed

declare while_newline.simps [simp del]

definition on_data :: "framer \<Rightarrow> string \<Rightarrow> framer" where
  "on_data st data = while_newline (fst st @ data) (snd st)"

definition on_end :: "framer \<Rightarrow> framer" where
  "on_end st = (fst st, if fst st \<noteq> [] then snd st @ [fst st] else snd st)"

definition feed_chunks :: "framer \<Rightarrow> string list \<Rightarrow> framer" where
  "feed_chunks st chunks = fold (\<lambda>data st. on_data st data) chunks st"

text \<open>The lines the callback has received once the chunks and the end of stream are in.\<close>

definition streamReadlineHandler :: "string list \<Rightarrow> string list" where
  "streamReadlineHandler chunks = snd (on_end (feed_chunks ([], []) chunks))"

subsection \<open>The framing the specification describes\<close>

text \<open>
  Following the specification's words: every complete line is the content up to but
  excluding its newline, in order; what follows the last newline is the unterminated
  rest, emitted at the end of the stream when it is not empty.
\<close>

fun complete_lines :: "string \<Rightarrow> string \<Rightarrow> string list" where
  "complete_lines cur [] = []"
| "complete_lines cur (c # cs) =
     (if c = nl then cur # complete_lines [] cs else complete_lines (cur @ [c]) cs)"

fun unterminated :: "string \<Rightarrow> string \<Rightarrow> string" where
  "unterminated cur [] = cur"
| "unterminated cur (c # cs) =
     (if c = nl then unterminated [] cs else unterminated (cur @ [c]) cs)"

definition lines_from :: "string \<Rightarrow> string \<Rightarrow> string list" where
  "lines_from cur s =
     complete_lines cur s @ (if unterminated cur s = [] then [] else [unterminated cur s])"

definition spec_lines :: "string \<Rightarrow> string list" where
  "spec_lines s = lines_from [] s"

fun rejoin :: "string list \<Rightarrow> string" where
  "rejoin [] = []"
| "rejoin [l] = l"
| "rejoin (l # m # ls) = l @ nl # rejoin (m # ls)"

definition without_final_newline :: "string \<Rightarrow> string" where
  "without_final_newline s = (if s \<noteq> [] \<and> last s = nl then butlast s else s)"

section \<open>JSON values and the log parser\<close>

text \<open>
  What \<^verbatim>\<open>JSON.parse\<close> can return. Numbers are not inspected by the code beyond their
  truthiness, and are kept as integers. An object is the list of its own properties;
  \<^verbatim>\<open>undefined\<close> is \<open>None\<close> where a value may be missing.
\<close>

datatype json =
    JNull
  | JBool bool
  | JNum int
  | JStr string
  | JArr "json list"
  | JObj "(string \<times> json) list"

datatype js_error = TypeError | Error string | Unhandled json

text \<open>
  \<^verbatim>\<open>
  function rcdJsonParser(text) {
      try { return JSON.parse(text); }
      catch { return { level: 'error', source: '', time: new Date().toJSON(), msg: text }; }
  }
  \<close>
  \<^verbatim>\<open>JSON.parse\<close> is a parameter: \<open>None\<close> when it throws. \<open>now\<close> is what
  \<^verbatim>\<open>new Date().toJSON()\<close> returns at the call.
\<close>

definition rcdJsonParser :: "(string \<Rightarrow> json option) \<Rightarrow> string \<Rightarrow> string \<Rightarrow> json" where
  "rcdJsonParser parse now text =
     (case parse text of
        Some v \<Rightarrow> v
      | None \<Rightarrow> JObj [(''level'', JStr ''error''), (''source'', JStr ''''),
                       (''time'', JStr now), (''msg'', JStr text)])"

section \<open>Property access and method calls on parsed values\<close>

text \<open>
  \<^verbatim>\<open>data.source\<close> and \<^verbatim>\<open>data.msg\<close>: reading a property of \<^verbatim>\<open>null\<close> throws a TypeError;
  numbers, booleans, strings and arrays have no property of these two names; an object
  gives its own property, or \<^verbatim>\<open>undefined\<close>.
\<close>

fun get_prop :: "json \<Rightarrow> string \<Rightarrow> js_error + json option" where
  "get_prop JNull k = Inl TypeError"
| "get_prop (JObj kvs) k = Inr (map_of kvs k)"
| "get_prop v k = Inr None"

text \<open>
  \<^verbatim>\<open>v.startsWith(p)\<close>: only a string has the method; on anything else the call throws a
  TypeError (\<^verbatim>\<open>undefined\<close> has no properties, and a parsed value holds no function).
\<close>

fun call_startsWith :: "json option \<Rightarrow> string \<Rightarrow> js_error + bool" where
  "call_startsWith (Some (JStr s)) p = Inr (startsWith s p)"
| "call_startsWith v p = Inl TypeError"

text \<open>
  \<^verbatim>\<open>v.includes(p)\<close>: a string looks for a substring, an array for an element equal to
  the string; anything else throws a TypeError.
\<close>

fun call_includes :: "json option \<Rightarrow> string \<Rightarrow> js_error + bool" where
  "call_includes (Some (JStr s)) p = Inr (str_includes s p)"
| "call_includes (Some (JArr xs)) p = Inr (JStr p \<in> set xs)"
| "call_includes v p = Inl TypeError"

definition and_then :: "'e + 'a \<Rightarrow> ('a \<Rightarrow> 'e + 'b) \<Rightarrow> 'e + 'b" where
  "and_then r f = (case r of Inl e \<Rightarrow> Inl e | Inr x \<Rightarrow> f x)"

section \<open>rcd: the daemon process and its life-cycle signals\<close>

text \<open>
  The child process as the supervisor sees it: whether \<^verbatim>\<open>emitReady\<close> is still a listener
  of \<^verbatim>\<open>'data'\<close>, whether the caller has registered a listener of \<^verbatim>\<open>'error'\<close>, the
  events emitted so far, and the signals passed to \<^verbatim>\<open>kill\<close>. What the caller's
  listeners do with an event is outside the model.
\<close>

datatype event = Data json | Ready string | Failure json

record proc =
  listening :: bool
  error_listener :: bool
  events :: "event list"
  kills :: "int list"

text \<open>
  \<^verbatim>\<open>
  const emitReady = (data) => {
      if (data.source.startsWith('rcserver/rcserver.go') && data.msg.startsWith('Serving remote control')) {
          proc.off('data', emitReady);
          proc.emit('ready', data.msg.slice(26));
      } else if (data.msg.includes('Failed to start remote control:')) {
          proc.emit('error', data.msg);
          proc.kill(1);
      }
  };
  \<close>
  \<open>Failure m\<close> is the \<^verbatim>\<open>'error'\<close> event with payload \<open>m\<close>. \<open>&&\<close> evaluates its right
  operand only when the left one is true. An event emitter with no listener of
  \<^verbatim>\<open>'error'\<close> throws when that event is emitted, here before \<^verbatim>\<open>proc.kill(1)\<close> is
  reached.
\<close>

definition ready_test :: "json \<Rightarrow> js_error + bool" where
  "ready_test data =
     and_then (get_prop data ''source'') (\<lambda>source.
     and_then (call_startsWith source ''rcserver/rcserver.go'') (\<lambda>b.
       if b then and_then (get_prop data ''msg'') (\<lambda>msg.
                   call_startsWith msg ''Serving remote control'')
       else Inr False))"

definition failure_test :: "json \<Rightarrow> js_error + bool" where
  "failure_test data =
     and_then (get_prop data ''msg'') (\<lambda>msg.
       call_includes msg ''Failed to start remote control:'')"

definition msg_slice :: "json \<Rightarrow> int \<Rightarrow> js_error + string" where
  "msg_slice data n =
     and_then (get_prop data ''msg'') (\<lambda>msg.
       case msg of Some (JStr s) \<Rightarrow> Inr (slice_from s n) | _ \<Rightarrow> Inl TypeError)"

definition msg_of :: "json \<Rightarrow> js_error + json" where
  "msg_of data =
     and_then (get_prop data ''msg'') (\<lambda>msg.
       case msg of Some m \<Rightarrow> Inr m | None \<Rightarrow> Inl TypeError)"

text \<open>
  An exception is kept with the process as it is at the throw: what has been emitted
  before stays emitted.
\<close>

definition thrown_in :: "proc \<Rightarrow> js_error + 'a \<Rightarrow> js_error \<times> proc + 'a" where
  "thrown_in p r = (case r of Inl e \<Rightarrow> Inl (e, p) | Inr x \<Rightarrow> Inr x)"

definition state_after :: "js_error \<times> proc + proc \<Rightarrow> proc" where
  "state_after r = (case r of Inl (e, q) \<Rightarrow> q | Inr q \<Rightarrow> q)"

definition emitReady :: "proc \<Rightarrow> json \<Rightarrow> js_error \<times> proc + proc" where
  "emitReady p data =
     and_then (thrown_in p (ready_test data)) (\<lambda>is_ready.
       if is_ready then
         and_then (thrown_in p (msg_slice data 26)) (\<lambda>address.
           Inr (p\<lparr>listening := False, events := events p @ [Ready address]\<rparr>))
       else
         and_then (thrown_in p (failure_test data)) (\<lambda>is_failure.
           if is_failure then
             and_then (thrown_in p (msg_of data)) (\<lambda>m.
               if error_listener p
               then Inr (p\<lparr>events := events p @ [Failure m], kills := kills p @ [1]\<rparr>)
               else Inl (Unhandled m, p))
           else Inr p))"

text \<open>
  \<^verbatim>\<open>proc.emit('data', v)\<close>: the value goes on the event feed, and \<^verbatim>\<open>emitReady\<close> runs
  on it while it is registered. An exception of the listener leaves \<^verbatim>\<open>emit\<close>.
\<close>

definition emit_data :: "proc \<Rightarrow> json \<Rightarrow> js_error \<times> proc + proc" where
  "emit_data p v =
     (if listening p then emitReady (p\<lparr>events := events p @ [Data v]\<rparr>) v
      else Inr (p\<lparr>events := events p @ [Data v]\<rparr>))"

text \<open>\<^verbatim>\<open>const jsonLogEmmit = (text) => proc.emit('data', rcdJsonParser(text))\<close>\<close>

definition jsonLogEmmit ::
  "(string \<Rightarrow> json option) \<Rightarrow> string \<Rightarrow> proc \<Rightarrow> string \<Rightarrow> js_error \<times> proc + proc" where
  "jsonLogEmmit parse now p text = emit_data p (rcdJsonParser parse now text)"

text \<open>A sequence of values published one after the other, up to the first exception.\<close>

fun emit_all :: "proc \<Rightarrow> json list \<Rightarrow> js_error \<times> proc + proc" where
  "emit_all p [] = Inr p"
| "emit_all p (v # vs) = and_then (emit_data p v) (\<lambda>p'. emit_all p' vs)"

text \<open>
  The process as \<^verbatim>\<open>rcd\<close> returns it: \<^verbatim>\<open>proc.on('data', emitReady)\<close> has run, and the
  caller has registered nothing yet. \<open>on_error\<close> is the caller's
  \<^verbatim>\<open>proc.on('error', listener)\<close>.
\<close>

definition proc0 :: proc where
  "proc0 = \<lparr>listening = True, error_listener = False, events = [], kills = []\<rparr>"

definition on_error :: "proc \<Rightarrow> proc" where
  "on_error p = p\<lparr>error_listener := True\<rparr>"

text \<open>The payloads of the \<^verbatim>\<open>'ready'\<close> and of the \<^verbatim>\<open>'error'\<close> events, in order.\<close>

fun ready_payloads :: "event list \<Rightarrow> string list" where
  "ready_payloads [] = []"
| "ready_payloads (Ready a # es) = a # ready_payloads es"
| "ready_payloads (e # es) = ready_payloads es"

fun failure_payloads :: "event list \<Rightarrow> json list" where
  "failure_payloads [] = []"
| "failure_payloads (Failure m # es) = m # failure_payloads es"
| "failure_payloads (e # es) = failure_payloads es"

fun data_payloads :: "event list \<Rightarrow> json list" where
  "data_payloads [] = []"
| "data_payloads (Data v # es) = v # data_payloads es"
| "data_payloads (e # es) = data_payloads es"

text \<open>
  A value of the LogMessage shape, as far as the handler reads it: an object whose
  \<open>source\<close> and \<open>msg\<close> are strings.
\<close>

fun string_field :: "json \<Rightarrow> string \<Rightarrow> string option" where
  "string_field (JObj kvs) k = (case map_of kvs k of Some (JStr s) \<Rightarrow> Some s | _ \<Rightarrow> None)"
| "string_field v k = None"

definition is_LogMessage :: "json \<Rightarrow> bool" where
  "is_LogMessage v = (string_field v ''source'' \<noteq> None \<and> string_field v ''msg'' \<noteq> None)"

definition source_of :: "json \<Rightarrow> string" where
  "source_of v = (case string_field v ''source'' of Some s \<Rightarrow> s | None \<Rightarrow> [])"

definition msg_text :: "json \<Rightarrow> string" where
  "msg_text v = (case string_field v ''msg'' of Some s \<Rightarrow> s | None \<Rightarrow> [])"

text \<open>The two patterns, on a LogMessage.\<close>

definition matches_ready :: "json \<Rightarrow> bool" where
  "matches_ready v =
     (startsWith (source_of v) ''rcserver/rcserver.go''
      \<and> startsWith (msg_text v) ''Serving remote control'')"

definition matches_failure :: "json \<Rightarrow> bool" where
  "matches_failure v = str_includes (msg_text v) ''Failed to start remote control:''"

section \<open>Subprocess calls of the driver\<close>

text \<open>
  What \<^verbatim>\<open>spawnSync\<close> gives: it throws, or returns a result whose \<^verbatim>\<open>output\<close> is
  \<^verbatim>\<open>null\<close> (the process could not be started), or the array
  \<^verbatim>\<open>[null, stdout, stderr]\<close>. \<^verbatim>\<open>spawnSync\<close> itself is a function of the binary, the
  arguments and the environment option (\<open>None\<close> when no options are given). The driver
  holds the resolved binary and the optional config file it was built with.
\<close>

datatype spawn_sync = Throws | NoOutput | Output string string

type_synonym spawnSync = "string \<Rightarrow> string list \<Rightarrow> (string \<times> string) list option \<Rightarrow> spawn_sync"

record driver =
  binary :: string
  configFile :: "string option"

text \<open>
  \<^verbatim>\<open>result.output.toString()\<close>: the array joined with commas, \<^verbatim>\<open>null\<close> as the
  empty string.
\<close>

definition output_toString :: "string \<Rightarrow> string \<Rightarrow> string" where
  "output_toString out err = '','' @ out @ '','' @ err"

text \<open>White space of \<^verbatim>\<open>trim\<close> and of \<^verbatim>\<open>\s\<close>, among the code units below 256.\<close>

definition is_space :: "char \<Rightarrow> bool" where
  "is_space c = (c \<in> {CHR 0x09, CHR 0x0A, CHR 0x0B, CHR 0x0C, CHR 0x0D, CHR 0x20, CHR 0xA0})"

definition trim :: "string \<Rightarrow> string" where
  "trim s = rev (dropWhile is_space (rev (dropWhile is_space s)))"

text \<open>\<^verbatim>\<open>s.split('\n')\<close>: the pieces between the separators, at least one.\<close>

fun split_on :: "char \<Rightarrow> string \<Rightarrow> string \<Rightarrow> string list" where
  "split_on sep cur [] = [cur]"
| "split_on sep cur (c # cs) =
     (if c = sep then cur # split_on sep [] cs else split_on sep (cur @ [c]) cs)"

text \<open>\<^verbatim>\<open>s.split(/\r?\n/)\<close>: a carriage return just before a newline belongs to the separator.\<close>

fun split_crlf :: "string \<Rightarrow> string \<Rightarrow> string list" where
  "split_crlf cur [] = [cur]"
| "split_crlf cur [c] = (if c = nl then [cur, []] else [cur @ [c]])"
| "split_crlf cur (c # d # cs) =
     (if c = nl then cur # split_crlf [] (d # cs)
      else if c = cr \<and> d = nl then cur # split_crlf [] cs
      else split_crlf (cur @ [c]) (d # cs))"

text \<open>\<^verbatim>\<open>s.split(/\s+/)\<close>: a separator is a longest run of white space.\<close>

function split_ws :: "string \<Rightarrow> string \<Rightarrow> string list" where
  "split_ws cur [] = [cur]"
| "split_ws cur (c # cs) =
     (if is_space c then cur # split_ws [] (dropWhile is_space cs)
      else split_ws (cur @ [c]) cs)"
  by pat_completeness auto
termination
  by (relation "measure (\<lambda>(cur, s). length s)")
     (auto simp: length_dropWhile_le less_Suc_eq_le)

text \<open>
  \<^verbatim>\<open>
  function getVersion() {
      try {
          const result = spawnSync(binary, ['version'], { env: { RCLONE_CONFIG: devNull } });
          if (result.output) {
              const ver = result.output.toString().trim().split(/\r?\n/).shift().split(/\s+/).pop();
              return semver.clean(ver);
          }
      } catch {}
      throw new Error('Cannot detect Rclone version.');
  }
  \<close>
  \<^verbatim>\<open>semver.clean\<close> is a parameter: the canonical version, or \<open>None\<close> for \<^verbatim>\<open>null\<close>.
  \<open>sp\<close> is \<^verbatim>\<open>spawnSync\<close>, and \<open>devNull\<close> the platform's null device. On an empty
  array \<^verbatim>\<open>shift\<close> and \<^verbatim>\<open>pop\<close> give \<^verbatim>\<open>undefined\<close>, and the next method call on it
  throws into the \<^verbatim>\<open>catch\<close>: the token is then \<open>None\<close>.
\<close>

definition version_token :: "string \<Rightarrow> string \<Rightarrow> string option" where
  "version_token out err =
     (case split_crlf [] (trim (output_toString out err)) of
        [] \<Rightarrow> None
      | line # _ \<Rightarrow>
          (case split_ws [] line of
             [] \<Rightarrow> None
           | t # ts \<Rightarrow> Some (last (t # ts))))"

definition getVersion ::
  "(string \<Rightarrow> string option) \<Rightarrow> spawnSync \<Rightarrow> string \<Rightarrow> driver
   \<Rightarrow> js_error + string option" where
  "getVersion clean sp devNull d =
     (case sp (binary d) [''version''] (Some [(''RCLONE_CONFIG'', devNull)]) of
        Output out err \<Rightarrow>
          (case version_token out err of
             Some ver \<Rightarrow> Inr (clean ver)
           | None \<Rightarrow> Inl (Error ''Cannot detect Rclone version.''))
      | _ \<Rightarrow> Inl (Error ''Cannot detect Rclone version.''))"

text \<open>
  \<^verbatim>\<open>
  function getConfigFile() {
      if (configFile) { return configFile; }
      return getDefaultConfigFile();
  }
  function getDefaultConfigFile() {
      try {
          const result = spawnSync(binary, ['config', 'file']);
          if (result.output) {
              return (result.output.toString().trim().split('\n')[1] || '').trim();
          }
      } catch {}
      throw new Error('Cannot detect default Rclone file.');
  }
  \<close>
  Both return the subprocess calls they made (the argument lists) with their result.
\<close>

definition second_line :: "string list \<Rightarrow> string" where
  "second_line ls = (case ls of _ # l # _ \<Rightarrow> l | _ \<Rightarrow> [])"

definition getDefaultConfigFile ::
  "spawnSync \<Rightarrow> driver \<Rightarrow> string list list \<times> (js_error + string)" where
  "getDefaultConfigFile sp d =
     ([[''config'', ''file'']],
      case sp (binary d) [''config'', ''file''] None of
        Output out err \<Rightarrow>
          Inr (trim (second_line (split_on nl [] (trim (output_toString out err)))))
      | _ \<Rightarrow> Inl (Error ''Cannot detect default Rclone file.''))"

definition getConfigFile ::
  "spawnSync \<Rightarrow> driver \<Rightarrow> string list list \<times> (js_error + string)" where
  "getConfigFile sp d =
     (case configFile d of
        Some f \<Rightarrow> if f \<noteq> [] then ([], Inr f) else getDefaultConfigFile sp d
      | None \<Rightarrow> getDefaultConfigFile sp d)"

section \<open>The environment of the daemon\<close>

text \<open>
  \<^verbatim>\<open>
  const proc = spawn(binary, ['rcd'], {
      detached: false, shell: false, windowsHide: true, stdio: 'pipe',
      env: {
          RCLONE_AUTO_CONFIRM: 'false',
          RCLONE_CONFIG: getConfigFile(),
          RCLONE_PASSWORD: 'false',
          RCLONE_RC_SERVER_WRITE_TIMEOUT: '8760h0m0s',
          RCLONE_RC_SERVER_READ_TIMEOUT: '8760h0m0s',
          RCLONE_RC_WEB_GUI: 'false',
          RCLONE_RC_NO_AUTH: 'false',
          RCLONE_LOG_FORMAT: '',
          RCLONE_LOG_LEVEL: 'NOTICE',
          ...(env || {}),
          RCLONE_USE_JSON_LOG: 'true',
      },
  });
  \<close>
  An object literal assigns its properties in order, a later one replacing an earlier
  one of the same name. The caller's environment is a map, \<open>None\<close> when the argument is
  left out.
\<close>

definition object_of :: "(string \<times> string) list \<Rightarrow> (string \<rightharpoonup> string)" where
  "object_of kvs = fold (\<lambda>(k, v) m. m(k \<mapsto> v)) kvs Map.empty"

definition baseline :: "string \<Rightarrow> (string \<times> string) list" where
  "baseline config =
     [(''RCLONE_AUTO_CONFIRM'', ''false''),
      (''RCLONE_CONFIG'', config),
      (''RCLONE_PASSWORD'', ''false''),
      (''RCLONE_RC_SERVER_WRITE_TIMEOUT'', ''8760h0m0s''),
      (''RCLONE_RC_SERVER_READ_TIMEOUT'', ''8760h0m0s''),
      (''RCLONE_RC_WEB_GUI'', ''false''),
      (''RCLONE_RC_NO_AUTH'', ''false''),
      (''RCLONE_LOG_FORMAT'', ''''),
      (''RCLONE_LOG_LEVEL'', ''NOTICE'')]"

definition rcd_env :: "string \<Rightarrow> (string \<rightharpoonup> string) option \<Rightarrow> (string \<rightharpoonup> string)" where
  "rcd_env config env =
     ((object_of (baseline config)) ++ (case env of None \<Rightarrow> Map.empty | Some e \<Rightarrow> e))
       (''RCLONE_USE_JSON_LOG'' \<mapsto> ''true'')"

record spawned =
  command :: string
  args :: "string list"
  detached :: bool
  shell :: bool
  windowsHide :: bool
  stdio :: string
  environment :: "string \<rightharpoonup> string"

text \<open>
  \<^verbatim>\<open>rcd(env)\<close>: an exception of \<^verbatim>\<open>getConfigFile\<close> leaves it before anything is
  spawned; otherwise the spawn call and the process with \<^verbatim>\<open>emitReady\<close> registered.
\<close>

definition rcd ::
  "spawnSync \<Rightarrow> driver \<Rightarrow> (string \<rightharpoonup> string) option
   \<Rightarrow> js_error + spawned \<times> proc" where
  "rcd sp d env =
     and_then (snd (getConfigFile sp d)) (\<lambda>config.
       Inr (\<lparr>command = binary d, args = [''rcd''], detached = False, shell = False,
             windowsHide = True, stdio = ''pipe'', environment = rcd_env config env\<rparr>,
            proc0))"

section \<open>remoteCommand\<close>

text \<open>
  \<^verbatim>\<open>
  export function remoteCommand(server, endpoint, payload) {
      const abortController = new AbortController();
      const uri = server.uri + endpoint;
      const authHeader = server.auth ? 'Basic ' + Buffer.from(server.auth).toString('base64') : null;
      return { abort, result: result() };
      function abort() { abortController.abort(); }
      async function result() {
          const fetcher = await fetch(uri, {
              method: 'POST',
              signal: abortController.signal,
              headers: { Authorization: authHeader, 'Content-Type': 'application/json' },
              body: JSON.stringify(payload || {}),
          });
          return fetcher.json();
      }
  }
  \<close>
  The model gives the calls of \<^verbatim>\<open>fetch\<close> that building the result makes. The base64
  encoder and \<^verbatim>\<open>JSON.stringify\<close> are parameters. A header value is \<open>None\<close> for
  \<^verbatim>\<open>null\<close>; the payload is \<open>None\<close> when the argument is left out.
\<close>

record server_info =
  auth :: "string option"
  uri :: string

record request =
  url :: string
  http_method :: string
  headers :: "(string \<times> string option) list"
  body :: string

fun truthy :: "json \<Rightarrow> bool" where
  "truthy JNull = False"
| "truthy (JBool b) = b"
| "truthy (JNum n) = (n \<noteq> 0)"
| "truthy (JStr s) = (s \<noteq> [])"
| "truthy (JArr xs) = True"
| "truthy (JObj kvs) = True"

definition authHeader :: "(string \<Rightarrow> string) \<Rightarrow> server_info \<Rightarrow> string option" where
  "authHeader base64 server =
     (case auth server of
        Some a \<Rightarrow> if a \<noteq> [] then Some (''Basic '' @ base64 a) else None
      | None \<Rightarrow> None)"

definition payload_or_empty :: "json option \<Rightarrow> json" where
  "payload_or_empty payload =
     (case payload of Some v \<Rightarrow> if truthy v then v else JObj [] | None \<Rightarrow> JObj [])"

definition remoteCommand ::
  "(string \<Rightarrow> string) \<Rightarrow> (json \<Rightarrow> string) \<Rightarrow> server_info \<Rightarrow> string \<Rightarrow> json option
   \<Rightarrow> request list" where
  "remoteCommand base64 stringify server endpoint payload =
     [\<lparr>url = uri server @ endpoint,
       http_method = ''POST'',
       headers = [(''Authorization'', authHeader base64 server),
                  (''Content-Type'', Some ''application/json'')],
       body = stringify (payload_or_empty payload)\<rparr>]"

text \<open>
  What \<^verbatim>\<open>fetch\<close> sends for the \<^verbatim>\<open>headers\<close> object: one header for every property,
  its value converted to a string, so that \<^verbatim>\<open>null\<close> is sent as the text \<^verbatim>\<open>null\<close>.
  Header names are compared as they are written in the source.
\<close>

definition header_text :: "string option \<Rightarrow> string" where
  "header_text v = (case v of Some s \<Rightarrow> s | None \<Rightarrow> ''null'')"

definition sent_headers :: "request \<Rightarrow> (string \<times> string) list" where
  "sent_headers r = map (\<lambda>(name, v). (name, header_text v)) (headers r)"

section \<open>Example values\<close>

text \<open>Log records as the daemon writes them, used to run the model on concrete input.\<close>

definition ready_example :: json where
  "ready_example =
     JObj [(''level'', JStr ''info''),
           (''msg'', JStr ''Serving remote control on http://127.0.0.1:5572/''),
           (''source'', JStr ''rcserver/rcserver.go''),
           (''time'', JStr ''2022-10-21T10:00:00Z'')]"

definition failure_example :: json where
  "failure_example =
     JObj [(''level'', JStr ''error''),
           (''msg'', JStr ''Failed to start remote control: address already in use''),
           (''source'', JStr ''rcd/rcd.go''),
           (''time'', JStr ''2022-10-21T10:00:00Z'')]"

definition notice_example :: json where
  "notice_example =
     JObj [(''level'', JStr ''info''),
           (''msg'', JStr ''Starting bandwidth limiter''),
           (''source'', JStr ''accounting/token_bucket.go''),
           (''time'', JStr ''2022-10-21T10:00:00Z'')]"

text \<open>A \<^verbatim>\<open>JSON.parse\<close> that knows two texts and rejects every other one.\<close>

definition parse_example :: "string \<Rightarrow> json option" where
  "parse_example text =
     (if text = ''null'' then Some JNull
      else if text = ''42'' then Some (JNum 42)
      else None)"

text \<open>A \<^verbatim>\<open>semver.clean\<close> that knows one version and rejects every other token.\<close>

definition clean_example :: "string \<Rightarrow> string option" where
  "clean_example tok = (if tok = ''v1.60.0'' then Some ''1.60.0'' else None)"

definition driver_example :: driver where
  "driver_example = \<lparr>binary = ''rclone'', configFile = None\<rparr>"

text \<open>What the two subcommands print, and a process that prints nothing.\<close>

definition version_output :: string where
  "version_output = ''rclone v1.60.0\<newline>- os/version: debian 11.5 (64 bit)\<newline>''"

definition config_file_output :: string where
  "config_file_output =
     ''Configuration file is stored at:\<newline>/home/user/.config/rclone/rclone.conf\<newline>''"

definition spawn_example :: spawnSync where
  "spawn_example bin arguments environ =
     (if arguments = [''version''] then Output version_output []
      else if arguments = [''config'', ''file''] then Output config_file_output []
      else NoOutput)"

definition spawn_silent :: spawnSync where
  "spawn_silent bin arguments environ = Output [] []"

definition spawn_missing :: spawnSync where
  "spawn_missing bin arguments environ = NoOutput"

text \<open>A base64 encoder and a \<^verbatim>\<open>JSON.stringify\<close> that know the values of the examples.\<close>

definition base64_example :: "string \<Rightarrow> string" where
  "base64_example s = (if s = ''user:pass'' then ''dXNlcjpwYXNz'' else [])"

definition stringify_example :: "json \<Rightarrow> string" where
  "stringify_example v =
     (if v = JObj [] then ''{}''
      else if v = JObj [(''fs'', JStr ''remote:'')] then ''{\"fs\":\"remote:\"}''
      else if v = JNum 0 then ''0''
      else ''null'')"

section \<open>The line framer emits the lines of its input\<close>

lemma indexOf_absent: "c \<notin> set s \<Longrightarrow> indexOf s c = - 1"
  by (simp add: indexOf_def)

lemma indexOf_present: "c \<in> set s \<Longrightarrow> indexOf s c = int (length (takeWhile (\<lambda>x. x \<noteq> c) s))"
  by (simp add: indexOf_def)

lemma complete_lines_no_nl: "nl \<notin> set s \<Longrightarrow> complete_lines cur s = []"
  by (induction s arbitrary: cur) auto

lemma unterminated_no_nl: "nl \<notin> set s \<Longrightarrow> unterminated cur s = cur @ s"
  by (induction s arbitrary: cur) auto

lemma complete_lines_append:
  "complete_lines cur (s @ t) = complete_lines cur s @ complete_lines (unterminated cur s) t"
  by (induction s arbitrary: cur) auto

lemma unterminated_append:
  "unterminated cur (s @ t) = unterminated (unterminated cur s) t"
  by (induction s arbitrary: cur) auto

lemma complete_lines_cur: "nl \<notin> set cur \<Longrightarrow> complete_lines cur s = complete_lines [] (cur @ s)"
  by (simp add: complete_lines_append complete_lines_no_nl unterminated_no_nl)

lemma unterminated_cur: "nl \<notin> set cur \<Longrightarrow> unterminated cur s = unterminated [] (cur @ s)"
  by (simp add: unterminated_append unterminated_no_nl)

lemma unterminated_clean: "nl \<notin> set cur \<Longrightarrow> nl \<notin> set (unterminated cur s)"
  by (induction s arbitrary: cur) auto

lemma complete_lines_clean:
  "nl \<notin> set cur \<Longrightarrow> list_all (\<lambda>l. nl \<notin> set l) (complete_lines cur s)"
  by (induction s arbitrary: cur) auto

lemma split_at_newline:
  assumes "nl \<in> set b"
  shows "b = takeWhile (\<lambda>x. x \<noteq> nl) b @ nl # drop (Suc (length (takeWhile (\<lambda>x. x \<noteq> nl) b))) b"
proof -
  have "dropWhile (\<lambda>x. x \<noteq> nl) b \<noteq> []" using assms by (simp add: dropWhile_eq_Nil_conv)
  moreover have "hd (dropWhile (\<lambda>x. x \<noteq> nl) b) = nl"
    using assms hd_dropWhile[of "\<lambda>x. x \<noteq> nl" b] calculation by auto
  ultimately have "dropWhile (\<lambda>x. x \<noteq> nl) b = nl # tl (dropWhile (\<lambda>x. x \<noteq> nl) b)"
    by (cases "dropWhile (\<lambda>x. x \<noteq> nl) b") auto
  moreover have "tl (dropWhile (\<lambda>x. x \<noteq> nl) b) = drop (Suc (length (takeWhile (\<lambda>x. x \<noteq> nl) b))) b"
    by (simp add: dropWhile_eq_drop drop_Suc tl_drop)
  ultimately show ?thesis
    by (metis takeWhile_dropWhile_id)
qed

lemma while_newline_eq:
  "while_newline b out = (unterminated [] b, out @ complete_lines [] b)"
proof (induction b out rule: while_newline.induct)
  case (1 backlog out)
  show ?case
  proof (cases "nl \<in> set backlog")
    case False
    then show ?thesis
      by (subst while_newline.simps)
         (simp add: indexOf_absent complete_lines_no_nl unterminated_no_nl)
  next
    case True
    let ?h = "takeWhile (\<lambda>x. x \<noteq> nl) backlog"
    let ?t = "drop (Suc (length ?h)) backlog"
    have ix: "indexOf backlog nl = int (length ?h)" using True by (rule indexOf_present)
    have sp: "backlog = ?h @ nl # ?t" using True by (rule split_at_newline)
    have clean: "nl \<notin> set ?h" by (auto dest: set_takeWhileD)
    have sl: "slice_from backlog (indexOf backlog nl + 1) = ?t"
      by (simp add: ix slice_from_def nat_add_distrib)
    have st: "slice_to backlog (indexOf backlog nl) = ?h"
      by (simp add: ix slice_to_def) (metis sp append_eq_conv_conj)
    have cl: "complete_lines [] backlog = ?h # complete_lines [] ?t"
      by (subst sp, simp add: complete_lines_append complete_lines_no_nl unterminated_no_nl clean)
    have un: "unterminated [] backlog = unterminated [] ?t"
      by (subst sp, simp add: unterminated_append unterminated_no_nl clean)
    have "indexOf backlog nl \<noteq> - 1" by (simp add: ix)
    then have "while_newline backlog out = while_newline ?t (out @ [?h])"
      by (subst while_newline.simps) (simp add: sl st)
    also have "\<dots> = (unterminated [] ?t, (out @ [?h]) @ complete_lines [] ?t)"
      using "1.IH"[OF \<open>indexOf backlog nl \<noteq> - 1\<close>] by (simp only: sl st)
    finally show ?thesis by (simp add: cl un)
  qed
qed

lemma feed_chunks_eq:
  "feed_chunks (unterminated [] s, complete_lines [] s) chunks =
     (unterminated [] (s @ concat chunks), complete_lines [] (s @ concat chunks))"
proof (induction chunks arbitrary: s)
  case Nil
  then show ?case by (simp add: feed_chunks_def)
next
  case (Cons d chunks)
  have clean: "nl \<notin> set (unterminated [] s)" by (simp add: unterminated_clean)
  have step: "on_data (unterminated [] s, complete_lines [] s) d =
      (unterminated [] (s @ d), complete_lines [] (s @ d))"
  proof -
    have u: "unterminated [] (unterminated [] s @ d) = unterminated [] (s @ d)"
      using unterminated_cur[OF clean, of d] by (simp add: unterminated_append)
    have c: "complete_lines [] s @ complete_lines [] (unterminated [] s @ d) = complete_lines [] (s @ d)"
      using complete_lines_cur[OF clean, of d] by (simp add: complete_lines_append)
    show ?thesis by (simp add: on_data_def while_newline_eq u c)
  qed
  have "feed_chunks (unterminated [] s, complete_lines [] s) (d # chunks) =
      feed_chunks (unterminated [] (s @ d), complete_lines [] (s @ d)) chunks"
    by (simp add: feed_chunks_def step)
  then show ?case using Cons.IH[of "s @ d"] by simp
qed

lemma streamReadlineHandler_spec:
  "streamReadlineHandler chunks = spec_lines (concat chunks)"
  using feed_chunks_eq[of "[]" chunks]
  by (simp add: streamReadlineHandler_def on_end_def spec_lines_def lines_from_def)

lemma unterminated_whole: "complete_lines cur s = [] \<Longrightarrow> unterminated cur s = cur @ s"
proof (induction s arbitrary: cur)
  case Nil
  then show ?case by simp
next
  case (Cons c cs)
  then have "c \<noteq> nl" by (auto split: if_splits)
  with Cons show ?case by simp
qed

lemma lines_from_Nil_iff: "lines_from cur s = [] \<longleftrightarrow> cur = [] \<and> s = []"
proof
  assume "lines_from cur s = []"
  then have "complete_lines cur s = []" and "unterminated cur s = []"
    by (simp_all add: lines_from_def split: if_splits)
  then show "cur = [] \<and> s = []" using unterminated_whole[of cur s] by simp
next
  assume "cur = [] \<and> s = []"
  then show "lines_from cur s = []" by (simp add: lines_from_def)
qed

lemma rejoin_Cons: "rejoin (l # ls) = (if ls = [] then l else l @ nl # rejoin ls)"
  by (cases ls) auto

lemma rejoin_lines_from:
  "nl \<notin> set cur \<Longrightarrow> rejoin (lines_from cur s) = without_final_newline (cur @ s)"
proof (induction s arbitrary: cur)
  case Nil
  then show ?case
    by (cases cur rule: rev_cases) (auto simp: lines_from_def without_final_newline_def)
next
  case (Cons c cs)
  show ?case
  proof (cases "c = nl")
    case True
    have "lines_from cur (c # cs) = cur # lines_from [] cs"
      using True by (simp add: lines_from_def)
    moreover have "rejoin (lines_from [] cs) = without_final_newline cs"
      using Cons.IH[of "[]"] by simp
    ultimately show ?thesis
      using True
      by (cases cs rule: rev_cases)
         (auto simp: rejoin_Cons lines_from_Nil_iff without_final_newline_def butlast_append)
  next
    case False
    then have "lines_from cur (c # cs) = lines_from (cur @ [c]) cs"
      by (simp add: lines_from_def)
    then show ?thesis using Cons.IH[of "cur @ [c]"] Cons.prems False by simp
  qed
qed

lemma count_lines: "length (complete_lines cur s) = count_list s nl"
  by (induction s arbitrary: cur) auto

text \<open>
  Claim C3. For every finite sequence of text chunks followed by the end of the stream,
  the lines handed to the callback are exactly the lines of the concatenated input as
  the specification describes them: each complete line, without its newline, once and
  in order, an empty line as the empty string, and the unterminated rest as a last line
  when it is not empty. Rejoined with newlines they give the concatenated input without
  its final newline, if it has one; no emitted line contains a newline; and their number
  is the number of newlines, plus one for a non-empty unterminated rest.
\<close>

theorem streamReadlineHandler_lines:
  "streamReadlineHandler chunks = spec_lines (concat chunks)
   \<and> rejoin (streamReadlineHandler chunks) = without_final_newline (concat chunks)
   \<and> list_all (\<lambda>l. nl \<notin> set l) (streamReadlineHandler chunks)
   \<and> length (streamReadlineHandler chunks) =
       count_list (concat chunks) nl + (if unterminated [] (concat chunks) = [] then 0 else 1)"
proof -
  have a: "streamReadlineHandler chunks = spec_lines (concat chunks)"
    by (rule streamReadlineHandler_spec)
  have b: "rejoin (spec_lines (concat chunks)) = without_final_newline (concat chunks)"
    using rejoin_lines_from[of "[]" "concat chunks"] by (simp add: spec_lines_def)
  have c: "list_all (\<lambda>l. nl \<notin> set l) (spec_lines (concat chunks))"
    using complete_lines_clean[of "[]" "concat chunks"] unterminated_clean[of "[]" "concat chunks"]
    by (simp add: spec_lines_def lines_from_def)
  have d: "length (spec_lines (concat chunks)) =
       count_list (concat chunks) nl + (if unterminated [] (concat chunks) = [] then 0 else 1)"
    by (simp add: spec_lines_def lines_from_def count_lines)
  show ?thesis using a b c d by simp
qed

section \<open>The life-cycle signals\<close>

lemma and_then_Inr [simp]: "and_then (Inr x) f = f x"
  by (simp add: and_then_def)

lemma and_then_Inl [simp]: "and_then (Inl e) f = Inl e"
  by (simp add: and_then_def)

lemma LogMessage_fields:
  assumes "is_LogMessage v"
  obtains kvs where "v = JObj kvs"
    and "map_of kvs ''source'' = Some (JStr (source_of v))"
    and "map_of kvs ''msg'' = Some (JStr (msg_text v))"
proof (cases v)
  case (JObj kvs)
  with assms obtain s m where "map_of kvs ''source'' = Some (JStr s)" "map_of kvs ''msg'' = Some (JStr m)"
    by (auto simp: is_LogMessage_def split: option.splits json.splits)
  with JObj that show ?thesis by (simp add: source_of_def msg_text_def)
qed (use assms in \<open>simp_all add: is_LogMessage_def\<close>)

lemma ready_test_LogMessage:
  "is_LogMessage v \<Longrightarrow> ready_test v = Inr (matches_ready v)"
  by (erule LogMessage_fields) (simp add: ready_test_def matches_ready_def)

lemma failure_test_LogMessage:
  "is_LogMessage v \<Longrightarrow> failure_test v = Inr (matches_failure v)"
  by (erule LogMessage_fields) (simp add: failure_test_def matches_failure_def)

lemma msg_slice_LogMessage:
  "is_LogMessage v \<Longrightarrow> msg_slice v n = Inr (slice_from (msg_text v) n)"
  by (erule LogMessage_fields) (simp add: msg_slice_def)

lemma msg_of_LogMessage:
  "is_LogMessage v \<Longrightarrow> msg_of v = Inr (JStr (msg_text v))"
  by (erule LogMessage_fields) (simp add: msg_of_def)

lemma emitReady_LogMessage:
  "is_LogMessage v \<Longrightarrow> emitReady p v =
     (if matches_ready v
      then Inr (p\<lparr>listening := False,
                  events := events p @ [Ready (slice_from (msg_text v) 26)]\<rparr>)
      else if matches_failure v
      then (if error_listener p
            then Inr (p\<lparr>events := events p @ [Failure (JStr (msg_text v))],
                        kills := kills p @ [1]\<rparr>)
            else Inl (Unhandled (JStr (msg_text v)), p))
      else Inr p)"
  by (simp add: emitReady_def thrown_in_def ready_test_LogMessage failure_test_LogMessage
      msg_slice_LogMessage msg_of_LogMessage)

lemma emit_data_LogMessage:
  "is_LogMessage v \<Longrightarrow> error_listener p \<or> \<not> matches_failure v \<Longrightarrow> emit_data p v = Inr
     (if listening p \<and> matches_ready v
      then p\<lparr>listening := False,
             events := events p @ [Data v, Ready (slice_from (msg_text v) 26)]\<rparr>
      else if listening p \<and> matches_failure v
      then p\<lparr>events := events p @ [Data v, Failure (JStr (msg_text v))],
             kills := kills p @ [1]\<rparr>
      else p\<lparr>events := events p @ [Data v]\<rparr>)"
  by (auto simp: emit_data_def emitReady_LogMessage)

lemma emit_data_ready:
  "is_LogMessage v \<Longrightarrow> listening p \<Longrightarrow> matches_ready v \<Longrightarrow>
     emit_data p v =
       Inr (p\<lparr>listening := False,
              events := events p @ [Data v, Ready (slice_from (msg_text v) 26)]\<rparr>)"
  by (simp add: emit_data_def emitReady_LogMessage)

text \<open>Without a listener of \<^verbatim>\<open>'error'\<close> the failure line throws, and nothing is killed.\<close>

lemma emit_data_unhandled:
  "is_LogMessage v \<Longrightarrow> listening p \<Longrightarrow> \<not> error_listener p \<Longrightarrow> \<not> matches_ready v \<Longrightarrow>
     matches_failure v \<Longrightarrow>
     emit_data p v = Inl (Unhandled (JStr (msg_text v)), p\<lparr>events := events p @ [Data v]\<rparr>)"
  by (simp add: emit_data_def emitReady_LogMessage)

lemma emit_data_unregistered:
  "\<not> listening p \<Longrightarrow> emit_data p v = Inr (p\<lparr>events := events p @ [Data v]\<rparr>)"
  by (simp add: emit_data_def)

lemma emit_all_unregistered:
  "\<not> listening p \<Longrightarrow> emit_all p vs = Inr (p\<lparr>events := events p @ map Data vs\<rparr>)"
proof (induction vs arbitrary: p)
  case Nil
  then show ?case by simp
next
  case (Cons v vs)
  have "emit_all (p\<lparr>events := events p @ [Data v]\<rparr>) vs =
      Inr (p\<lparr>events := events p @ [Data v]\<rparr>\<lparr>events := events (p\<lparr>events := events p @ [Data v]\<rparr>) @ map Data vs\<rparr>)"
    using Cons.prems by (intro Cons.IH) simp
  then show ?case using Cons.prems by (simp add: emit_data_unregistered)
qed

lemma emit_all_append:
  "emit_all p (xs @ ys) = and_then (emit_all p xs) (\<lambda>p'. emit_all p' ys)"
proof (induction xs arbitrary: p)
  case Nil
  then show ?case by simp
next
  case (Cons x xs)
  then show ?case by (cases "emit_data p x") simp_all
qed

lemma ready_payloads_append [simp]:
  "ready_payloads (es @ fs) = ready_payloads es @ ready_payloads fs"
  by (induction es rule: ready_payloads.induct) simp_all

lemma failure_payloads_append [simp]:
  "failure_payloads (es @ fs) = failure_payloads es @ failure_payloads fs"
  by (induction es rule: failure_payloads.induct) simp_all

lemma data_payloads_append [simp]:
  "data_payloads (es @ fs) = data_payloads es @ data_payloads fs"
  by (induction es rule: data_payloads.induct) simp_all

lemma ready_payloads_Data [simp]: "ready_payloads (map Data vs) = []"
  by (induction vs) simp_all

lemma failure_payloads_Data [simp]: "failure_payloads (map Data vs) = []"
  by (induction vs) simp_all

text \<open>Before the first ready line: the handler stays registered and no Ready is emitted.\<close>

lemma emit_all_before_ready:
  assumes "list_all is_LogMessage vs" and "\<not> list_ex matches_ready vs" and "listening p"
    and "error_listener p \<or> \<not> list_ex matches_failure vs"
  shows "\<exists>es. emit_all p vs = Inr (p\<lparr>events := events p @ es,
             kills := kills p @ map (\<lambda>_. 1) (filter matches_failure vs)\<rparr>)
          \<and> ready_payloads es = []
          \<and> failure_payloads es = map (\<lambda>v. JStr (msg_text v)) (filter matches_failure vs)
          \<and> data_payloads es = vs"
  using assms
proof (induction vs arbitrary: p)
  case Nil
  show ?case by (intro exI[of _ "[]"]) simp
next
  case (Cons v vs)
  let ?q = "if matches_failure v
            then p\<lparr>events := events p @ [Data v, Failure (JStr (msg_text v))], kills := kills p @ [1]\<rparr>
            else p\<lparr>events := events p @ [Data v]\<rparr>"
  have "error_listener p \<or> \<not> matches_failure v"
    using Cons.prems(4) by auto
  then have step: "emit_data p v = Inr ?q"
    using Cons.prems(1,2,3) by (simp add: emit_data_LogMessage)
  have "list_all is_LogMessage vs" "\<not> list_ex matches_ready vs" "listening ?q"
    "error_listener ?q \<or> \<not> list_ex matches_failure vs"
    using Cons.prems by auto
  from Cons.IH[OF this] obtain es where
    es: "emit_all ?q vs = Inr (?q\<lparr>events := events ?q @ es,
             kills := kills ?q @ map (\<lambda>_. 1) (filter matches_failure vs)\<rparr>)"
      "ready_payloads es = []"
      "failure_payloads es = map (\<lambda>v. JStr (msg_text v)) (filter matches_failure vs)"
      "data_payloads es = vs"
    by blast
  show ?case
  proof (cases "matches_failure v")
    case True
    with step es show ?thesis
      by (intro exI[of _ "[Data v, Failure (JStr (msg_text v))] @ es"]) simp
  next
    case False
    with step es show ?thesis
      by (intro exI[of _ "[Data v] @ es"]) simp
  qed
qed

lemma find_first_split:
  "find P xs = Some m \<Longrightarrow> \<exists>pre post. xs = pre @ m # post \<and> \<not> list_ex P pre \<and> P m"
proof (induction xs)
  case Nil
  then show ?case by simp
next
  case (Cons x xs)
  show ?case
  proof (cases "P x")
    case True
    with Cons.prems have "x = m" by simp
    with True show ?thesis by (intro exI[of _ "[]"] exI[of _ xs]) simp
  next
    case False
    with Cons obtain pre post where "xs = pre @ m # post" "\<not> list_ex P pre" "P m" by auto
    with False show ?thesis by (intro exI[of _ "x # pre"] exI[of _ post]) simp
  qed
qed

lemma find_None_list_ex: "find P xs = None \<longleftrightarrow> \<not> list_ex P xs"
  by (auto simp: find_None_iff list_ex_iff)

lemma first_split_unique:
  assumes "pre @ m # post = pre' @ m' # post'"
    and "\<not> list_ex P pre" and "P m" and "\<not> list_ex P pre'" and "P m'"
  shows "pre = pre' \<and> m = m' \<and> post = post'"
  using assms
proof (induction pre arbitrary: pre')
  case Nil
  then show ?case by (cases pre') auto
next
  case (Cons x pre)
  then show ?case by (cases pre') auto
qed

lemma emit_all_at_ready:
  assumes "list_all is_LogMessage (pre @ m # post)" and "\<not> list_ex matches_ready pre"
    and "matches_ready m" and "c \<or> \<not> list_ex matches_failure pre"
  shows "\<exists>es. emit_all (proc0\<lparr>error_listener := c\<rparr>) (pre @ m # post) =
            Inr \<lparr>listening = False, error_listener = c,
                 events = es @ [Data m, Ready (slice_from (msg_text m) 26)] @ map Data post,
                 kills = map (\<lambda>_. 1) (filter matches_failure pre)\<rparr>
          \<and> ready_payloads es = []"
proof -
  let ?p0 = "proc0\<lparr>error_listener := c\<rparr>"
  have pre: "list_all is_LogMessage pre" and m: "is_LogMessage m"
    using assms(1) by simp_all
  have l: "listening ?p0" and e: "error_listener ?p0 \<or> \<not> list_ex matches_failure pre"
    using assms(4) by (simp_all add: proc0_def)
  from emit_all_before_ready[OF pre assms(2) l e] obtain es where
    es: "emit_all ?p0 pre = Inr (?p0\<lparr>events := events ?p0 @ es,
             kills := kills ?p0 @ map (\<lambda>_. 1) (filter matches_failure pre)\<rparr>)"
      "ready_payloads es = []"
    by blast
  let ?q = "?p0\<lparr>events := events ?p0 @ es,
             kills := kills ?p0 @ map (\<lambda>_. 1) (filter matches_failure pre)\<rparr>"
  let ?r = "?q\<lparr>listening := False, events := events ?q @ [Data m, Ready (slice_from (msg_text m) 26)]\<rparr>"
  have "emit_data ?q m = Inr ?r"
    using m assms(3) by (intro emit_data_ready) (simp_all add: proc0_def)
  moreover have "emit_all ?r post = Inr (?r\<lparr>events := events ?r @ map Data post\<rparr>)"
    by (rule emit_all_unregistered) simp
  ultimately have "emit_all ?p0 (pre @ m # post) = Inr (?r\<lparr>events := events ?r @ map Data post\<rparr>)"
    using es(1) by (simp add: emit_all_append)
  then show ?thesis using es(2) by (intro exI[of _ es]) (simp add: proc0_def)
qed

text \<open>
  Claim C1. Whatever sequence of LogMessages is published on a fresh daemon process, no
  exception occurs and the Ready signal fires at most once: never when no message has a
  source starting with \<^verbatim>\<open>rcserver/rcserver.go\<close> and a msg starting with
  \<^verbatim>\<open>Serving remote control\<close>, and otherwise exactly once, for the first such
  message, with the text of its msg after the first 26 characters as payload. The Ready
  event directly follows that message on the feed, and every later message, matching or
  not, only adds itself to the feed. The caller listens for \<^verbatim>\<open>'error'\<close> (\<open>c\<close>), or no
  message is a failure line.
\<close>

theorem ready_fires_once:
  assumes "list_all is_LogMessage msgs" and "c \<or> \<not> list_ex matches_failure msgs"
  shows "\<exists>p. emit_all (proc0\<lparr>error_listener := c\<rparr>) msgs = Inr p
     \<and> ready_payloads (events p) =
         (case find matches_ready msgs of
            None \<Rightarrow> []
          | Some m \<Rightarrow> [slice_from (msg_text m) 26])
     \<and> listening p = (find matches_ready msgs = None)
     \<and> (\<forall>pre m post. msgs = pre @ m # post \<and> \<not> list_ex matches_ready pre \<and> matches_ready m \<longrightarrow>
           (\<exists>es. events p = es @ [Data m, Ready (slice_from (msg_text m) 26)] @ map Data post
                 \<and> ready_payloads es = []))"
proof (cases "find matches_ready msgs")
  case None
  let ?p0 = "proc0\<lparr>error_listener := c\<rparr>"
  from None have no: "\<not> list_ex matches_ready msgs" by (simp add: find_None_list_ex)
  have l: "listening ?p0" and e: "error_listener ?p0 \<or> \<not> list_ex matches_failure msgs"
    using assms(2) by (simp_all add: proc0_def)
  from emit_all_before_ready[OF assms(1) no l e] obtain es where
    run: "emit_all ?p0 msgs = Inr (?p0\<lparr>events := events ?p0 @ es,
             kills := kills ?p0 @ map (\<lambda>_. 1) (filter matches_failure msgs)\<rparr>)"
    and quiet: "ready_payloads es = []"
    by blast
  let ?p = "?p0\<lparr>events := events ?p0 @ es,
             kills := kills ?p0 @ map (\<lambda>_. 1) (filter matches_failure msgs)\<rparr>"
  have a: "ready_payloads (events ?p) = (case find matches_ready msgs of
            None \<Rightarrow> [] | Some m \<Rightarrow> [slice_from (msg_text m) 26])"
    using None quiet by (simp add: proc0_def)
  have b: "listening ?p = (find matches_ready msgs = None)"
    using None by (simp add: proc0_def)
  have c: "\<forall>pre m post. msgs = pre @ m # post \<and> \<not> list_ex matches_ready pre \<and> matches_ready m \<longrightarrow>
           (\<exists>es'. events ?p = es' @ [Data m, Ready (slice_from (msg_text m) 26)] @ map Data post
                 \<and> ready_payloads es' = [])"
  proof (intro allI impI)
    fix pre m post
    assume "msgs = pre @ m # post \<and> \<not> list_ex matches_ready pre \<and> matches_ready m"
    then have "m \<in> set msgs" and "matches_ready m" by simp_all
    then have "list_ex matches_ready msgs" unfolding list_ex_iff by blast
    with no show "\<exists>es'. events ?p = es' @ [Data m, Ready (slice_from (msg_text m) 26)] @ map Data post
                 \<and> ready_payloads es' = []" by simp
  qed
  from run a b c show ?thesis
    by - (rule exI[of _ ?p], (intro conjI; assumption))
next
  case (Some m)
  from find_first_split[OF Some] obtain pre post
    where sp: "msgs = pre @ m # post" "\<not> list_ex matches_ready pre" "matches_ready m"
    by blast
  let ?p = "\<lambda>es. \<lparr>listening = False, error_listener = c,
                 events = es @ [Data m, Ready (slice_from (msg_text m) 26)] @ map Data post,
                 kills = map (\<lambda>_. 1) (filter matches_failure pre)\<rparr>"
  have e: "c \<or> \<not> list_ex matches_failure pre"
    using assms(2) sp(1) by auto
  from emit_all_at_ready[OF assms(1)[unfolded sp(1)] sp(2,3) e] obtain es where
    run: "emit_all (proc0\<lparr>error_listener := c\<rparr>) msgs = Inr (?p es)"
    and quiet: "ready_payloads es = []"
    using sp(1) by auto
  have a: "ready_payloads (events (?p es)) = (case find matches_ready msgs of
            None \<Rightarrow> [] | Some m \<Rightarrow> [slice_from (msg_text m) 26])"
    using Some quiet by simp
  have b: "listening (?p es) = (find matches_ready msgs = None)"
    using Some by simp
  have c: "\<forall>pre' m' post'. msgs = pre' @ m' # post' \<and> \<not> list_ex matches_ready pre' \<and> matches_ready m' \<longrightarrow>
           (\<exists>es'. events (?p es) = es' @ [Data m', Ready (slice_from (msg_text m') 26)] @ map Data post'
                 \<and> ready_payloads es' = [])"
  proof (intro allI impI)
    fix pre' m' post'
    assume h: "msgs = pre' @ m' # post' \<and> \<not> list_ex matches_ready pre' \<and> matches_ready m'"
    then have "pre' @ m' # post' = pre @ m # post" using sp(1) by simp
    from first_split_unique[OF this] h sp(2,3)
    have "pre' = pre \<and> m' = m \<and> post' = post" by blast
    then show "\<exists>es'. events (?p es) = es' @ [Data m', Ready (slice_from (msg_text m') 26)] @ map Data post'
                 \<and> ready_payloads es' = []"
      using quiet by (intro exI[of _ es]) simp
  qed
  from run a b c show ?thesis
    by - (rule exI[of _ "?p es"], (intro conjI; assumption))
qed

subsection \<open>The example records\<close>

lemma examples_are_LogMessages:
  "is_LogMessage ready_example" "is_LogMessage failure_example" "is_LogMessage notice_example"
  by (simp_all add: is_LogMessage_def ready_example_def failure_example_def notice_example_def)

lemma example_texts:
  "msg_text ready_example = ''Serving remote control on http://127.0.0.1:5572/''"
  "source_of ready_example = ''rcserver/rcserver.go''"
  "msg_text failure_example = ''Failed to start remote control: address already in use''"
  "source_of failure_example = ''rcd/rcd.go''"
  "msg_text notice_example = ''Starting bandwidth limiter''"
  "source_of notice_example = ''accounting/token_bucket.go''"
  by (simp_all add: msg_text_def source_of_def ready_example_def failure_example_def
      notice_example_def)

lemma example_matches:
  "matches_ready ready_example" "\<not> matches_ready failure_example" "\<not> matches_ready notice_example"
  "matches_failure failure_example" "\<not> matches_failure ready_example"
  "\<not> matches_failure notice_example"
  by (simp_all add: matches_ready_def matches_failure_def example_texts startsWith_def)

text \<open>
  The theorem at a feed with a failure line and two ready lines, the caller listening
  for \<^verbatim>\<open>'error'\<close>: the address of the first ready line is the only payload.
\<close>

theorem ready_fires_once_witness:
  "list_all is_LogMessage [notice_example, failure_example, ready_example, notice_example, ready_example]
   \<and> (\<exists>p. emit_all (proc0\<lparr>error_listener := True\<rparr>)
            [notice_example, failure_example, ready_example, notice_example, ready_example] = Inr p
          \<and> ready_payloads (events p) = [''http://127.0.0.1:5572/'']
          \<and> \<not> listening p)"
proof -
  let ?msgs = "[notice_example, failure_example, ready_example, notice_example, ready_example]"
  have lm: "list_all is_LogMessage ?msgs"
    by (simp add: examples_are_LogMessages)
  have c: "True \<or> \<not> list_ex matches_failure ?msgs" by simp
  from ready_fires_once[OF lm c] obtain p where
    "emit_all (proc0\<lparr>error_listener := True\<rparr>) ?msgs = Inr p"
    "ready_payloads (events p) =
       (case find matches_ready ?msgs of None \<Rightarrow> [] | Some m \<Rightarrow> [slice_from (msg_text m) 26])"
    "listening p = (find matches_ready ?msgs = None)"
    by (elim exE conjE) (rule that; assumption)
  then have "emit_all (proc0\<lparr>error_listener := True\<rparr>) ?msgs = Inr p
      \<and> ready_payloads (events p) = [''http://127.0.0.1:5572/'']
      \<and> \<not> listening p"
    by (simp add: example_matches example_texts slice_from_def)
  then show ?thesis using lm by blast
qed

section \<open>Start failure\<close>

text \<open>
  Claim C2 says that after a start failure the detection is disabled, so that no Ready
  fires afterwards even if a later line matches the ready pattern. The failure branch
  of \<^verbatim>\<open>emitReady\<close> emits \<^verbatim>\<open>'error'\<close> and calls \<^verbatim>\<open>proc.kill(1)\<close>, but unlike the
  ready branch it does not call \<^verbatim>\<open>proc.off\<close>: with the handler registered and the
  caller listening for \<^verbatim>\<open>'error'\<close>, a failure line followed by a ready line fires the
  failure signal with the message text, kills, and then fires Ready with the address.
\<close>

theorem ready_fires_after_failure:
  assumes "is_LogMessage f" and "\<not> matches_ready f" and "matches_failure f"
    and "is_LogMessage r" and "matches_ready r"
    and "listening p" and "error_listener p"
  shows "emit_all p [f, r] =
     Inr (p\<lparr>listening := False,
            events := events p @ [Data f, Failure (JStr (msg_text f)),
                                  Data r, Ready (slice_from (msg_text r) 26)],
            kills := kills p @ [1]\<rparr>)"
  using assms by (simp add: emit_data_LogMessage)

text \<open>The failure line and the ready line of the specification, on a fresh process.\<close>

theorem ready_fires_after_failure_witness:
  "is_LogMessage failure_example \<and> \<not> matches_ready failure_example
   \<and> matches_failure failure_example
   \<and> is_LogMessage ready_example \<and> matches_ready ready_example
   \<and> listening (on_error proc0) \<and> error_listener (on_error proc0)
   \<and> emit_all (on_error proc0) [failure_example, ready_example] =
     Inr \<lparr>listening = False, error_listener = True,
          events = [Data failure_example,
                    Failure (JStr ''Failed to start remote control: address already in use''),
                    Data ready_example,
                    Ready ''http://127.0.0.1:5572/''],
          kills = [1]\<rparr>"
proof -
  have l: "listening (on_error proc0)" and e: "error_listener (on_error proc0)"
    by (simp_all add: on_error_def proc0_def)
  from ready_fires_after_failure[OF examples_are_LogMessages(2) example_matches(2)
      example_matches(4) examples_are_LogMessages(1) example_matches(1) l e]
  have "emit_all (on_error proc0) [failure_example, ready_example] =
     Inr \<lparr>listening = False, error_listener = True,
          events = [Data failure_example,
                    Failure (JStr ''Failed to start remote control: address already in use''),
                    Data ready_example,
                    Ready ''http://127.0.0.1:5572/''],
          kills = [1]\<rparr>"
    by (simp add: example_texts on_error_def proc0_def slice_from_def)
  with l e examples_are_LogMessages example_matches show ?thesis by simp
qed

section \<open>Lines that are not JSON\<close>

text \<open>
  Claim C4. For a line that \<^verbatim>\<open>JSON.parse\<close> rejects, the parser returns the synthetic
  record with level \<open>error\<close>, empty source, the current time and the raw line as msg, and
  this record is what \<^verbatim>\<open>jsonLogEmmit\<close> publishes. Publishing it raises no exception
  and adds exactly that record to the feed (for a raw line that is itself a failure
  line, when the caller listens for \<^verbatim>\<open>'error'\<close>).
\<close>

theorem rcdJsonParser_fallback:
  assumes "parse text = None"
  shows "rcdJsonParser parse now text =
           JObj [(''level'', JStr ''error''), (''source'', JStr ''''),
                 (''time'', JStr now), (''msg'', JStr text)]
     \<and> jsonLogEmmit parse now p text = emit_data p (rcdJsonParser parse now text)
     \<and> (error_listener p \<or> \<not> str_includes text ''Failed to start remote control:'' \<longrightarrow>
         (\<exists>p'. jsonLogEmmit parse now p text = Inr p'
            \<and> data_payloads (events p') =
                data_payloads (events p) @ [rcdJsonParser parse now text]))"
proof -
  let ?v = "JObj [(''level'', JStr ''error''), (''source'', JStr ''''),
                 (''time'', JStr now), (''msg'', JStr text)]"
  have v: "rcdJsonParser parse now text = ?v"
    using assms by (simp add: rcdJsonParser_def)
  have lm: "is_LogMessage ?v" by (simp add: is_LogMessage_def)
  have f: "matches_failure ?v = str_includes text ''Failed to start remote control:''"
    by (simp add: matches_failure_def msg_text_def)
  have "\<exists>p'. emit_data p ?v = Inr p' \<and> data_payloads (events p') = data_payloads (events p) @ [?v]"
    if "error_listener p \<or> \<not> str_includes text ''Failed to start remote control:''"
    using that f by (simp add: emit_data_LogMessage[OF lm])
  then show ?thesis by (simp add: v jsonLogEmmit_def)
qed

text \<open>The line \<^verbatim>\<open>panic: something bad\<close> of the specification.\<close>

theorem rcdJsonParser_fallback_witness:
  "parse_example ''panic: something bad'' = None
   \<and> rcdJsonParser parse_example ''2022-10-21T10:00:00.000Z'' ''panic: something bad'' =
       JObj [(''level'', JStr ''error''), (''source'', JStr ''''),
             (''time'', JStr ''2022-10-21T10:00:00.000Z''), (''msg'', JStr ''panic: something bad'')]
   \<and> (\<exists>p'. jsonLogEmmit parse_example ''2022-10-21T10:00:00.000Z'' proc0 ''panic: something bad'' = Inr p'
          \<and> data_payloads (events p') =
               [JObj [(''level'', JStr ''error''), (''source'', JStr ''''),
                      (''time'', JStr ''2022-10-21T10:00:00.000Z''),
                      (''msg'', JStr ''panic: something bad'')]])"
proof -
  have n: "parse_example ''panic: something bad'' = None"
    by (simp add: parse_example_def)
  have q: "\<not> str_includes ''panic: something bad'' ''Failed to start remote control:''"
    by simp
  note t = rcdJsonParser_fallback[of parse_example "''panic: something bad''"
      "''2022-10-21T10:00:00.000Z''" proc0, OF n]
  from t have a: "rcdJsonParser parse_example ''2022-10-21T10:00:00.000Z'' ''panic: something bad'' =
       JObj [(''level'', JStr ''error''), (''source'', JStr ''''),
             (''time'', JStr ''2022-10-21T10:00:00.000Z''), (''msg'', JStr ''panic: something bad'')]"
    by (rule conjunct1)
  from t q have "\<exists>p'. jsonLogEmmit parse_example ''2022-10-21T10:00:00.000Z'' proc0
                        ''panic: something bad'' = Inr p'
          \<and> data_payloads (events p') = data_payloads (events proc0)
               @ [rcdJsonParser parse_example ''2022-10-21T10:00:00.000Z'' ''panic: something bad'']"
    by blast
  moreover have "data_payloads (events proc0) = []"
    by (simp add: proc0_def)
  ultimately have b: "\<exists>p'. jsonLogEmmit parse_example ''2022-10-21T10:00:00.000Z'' proc0
                        ''panic: something bad'' = Inr p'
          \<and> data_payloads (events p') =
               [JObj [(''level'', JStr ''error''), (''source'', JStr ''''),
                      (''time'', JStr ''2022-10-21T10:00:00.000Z''),
                      (''msg'', JStr ''panic: something bad'')]]"
    unfolding a by simp
  from n a b show ?thesis by (intro conjI)
qed

section \<open>Lines that are JSON of any shape\<close>

lemma emitReady_null: "emitReady p JNull = Inl (TypeError, p)"
  by (simp add: emitReady_def thrown_in_def ready_test_def)

lemma emitReady_number: "emitReady p (JNum n) = Inl (TypeError, p)"
  by (simp add: emitReady_def thrown_in_def ready_test_def)

text \<open>The handler adds no \<^verbatim>\<open>'data'\<close> event and removes nothing, whether it throws or not.\<close>

lemma emitReady_events:
  "\<exists>es. events (state_after (emitReady q v)) = events q @ es \<and> data_payloads es = []"
proof (cases "emitReady q v")
  case (Inl a)
  then have "snd a = q"
    by (auto simp: emitReady_def thrown_in_def and_then_def split: sum.splits if_splits)
  with Inl show ?thesis
    by (intro exI[of _ "[]"]) (auto simp: state_after_def split: prod.splits)
next
  case (Inr q')
  then consider "q' = q"
    | a where "q' = q\<lparr>listening := False, events := events q @ [Ready a]\<rparr>"
    | m where "q' = q\<lparr>events := events q @ [Failure m], kills := kills q @ [1]\<rparr>"
    by (auto simp: emitReady_def thrown_in_def and_then_def split: sum.splits if_splits)
  then show ?thesis
  proof cases
    case 1
    with Inr show ?thesis by (intro exI[of _ "[]"]) (simp add: state_after_def)
  next
    case (2 a)
    with Inr show ?thesis by (intro exI[of _ "[Ready a]"]) (simp add: state_after_def)
  next
    case (3 m)
    with Inr show ?thesis by (intro exI[of _ "[Failure m]"]) (simp add: state_after_def)
  qed
qed

lemma emit_data_published:
  "\<exists>es. events (state_after (emit_data p v)) = events p @ Data v # es \<and> data_payloads es = []"
proof (cases "listening p")
  case True
  from emitReady_events[of "p\<lparr>events := events p @ [Data v]\<rparr>" v] obtain es where
    "events (state_after (emitReady (p\<lparr>events := events p @ [Data v]\<rparr>) v))
       = events (p\<lparr>events := events p @ [Data v]\<rparr>) @ es"
    and "data_payloads es = []"
    by blast
  with True show ?thesis by (intro exI[of _ es]) (simp add: emit_data_def)
next
  case False
  then show ?thesis by (intro exI[of _ "[]"]) (simp add: emit_data_def state_after_def)
qed

text \<open>
  Claim C10. A line that parses is returned as parsed, without any check of its shape,
  and \<^verbatim>\<open>jsonLogEmmit\<close> puts exactly that value on the feed, whatever its shape and
  whether or not the handler is registered and throws: after the call the feed is the
  old feed, the value, and at most a signal. The handler's property accesses and method
  calls are defined on every value of the LogMessage shape: they throw no TypeError. On
  the parsed lines \<^verbatim>\<open>null\<close> and \<^verbatim>\<open>42\<close> they throw a TypeError, which leaves
  \<^verbatim>\<open>jsonLogEmmit\<close> while the handler is registered, the value being on the feed.
\<close>

theorem rcdJsonParser_unvalidated:
  "(parse text = Some v \<longrightarrow>
      rcdJsonParser parse now text = v
      \<and> (\<exists>es. events (state_after (jsonLogEmmit parse now p text)) = events p @ Data v # es
              \<and> data_payloads es = [])
      \<and> (\<not> listening p \<longrightarrow>
            jsonLogEmmit parse now p text = Inr (p\<lparr>events := events p @ [Data v]\<rparr>))
      \<and> (listening p \<and> (v = JNull \<or> v = JNum 42) \<longrightarrow>
            jsonLogEmmit parse now p text
              = Inl (TypeError, p\<lparr>events := events p @ [Data v]\<rparr>)))
   \<and> (is_LogMessage v \<longrightarrow> (\<forall>q. emitReady p v \<noteq> Inl (TypeError, q)))
   \<and> emitReady p JNull = Inl (TypeError, p)
   \<and> emitReady p (JNum 42) = Inl (TypeError, p)"
proof -
  have a: "rcdJsonParser parse now text = v" if "parse text = Some v"
    using that by (simp add: rcdJsonParser_def)
  have b: "\<exists>es. events (state_after (jsonLogEmmit parse now p text)) = events p @ Data v # es
              \<and> data_payloads es = []" if "parse text = Some v"
    using emit_data_published[of p v] a[OF that] by (simp add: jsonLogEmmit_def)
  have c: "jsonLogEmmit parse now p text = Inr (p\<lparr>events := events p @ [Data v]\<rparr>)"
    if "parse text = Some v" "\<not> listening p"
    using that a[OF that(1)] by (simp add: jsonLogEmmit_def emit_data_def)
  have d: "jsonLogEmmit parse now p text = Inl (TypeError, p\<lparr>events := events p @ [Data v]\<rparr>)"
    if "parse text = Some v" "listening p" "v = JNull \<or> v = JNum 42"
    using that a[OF that(1)]
    by (auto simp: jsonLogEmmit_def emit_data_def emitReady_null emitReady_number)
  have e: "\<forall>q. emitReady p v \<noteq> Inl (TypeError, q)" if "is_LogMessage v"
    by (simp add: emitReady_LogMessage[OF that])
  from a b c d e show ?thesis
    by (simp add: emitReady_null emitReady_number)
qed

text \<open>
  The lines \<^verbatim>\<open>null\<close> and \<^verbatim>\<open>42\<close> on the process as \<^verbatim>\<open>rcd\<close> returns it and on one
  whose handler is unregistered, and a well-shaped record.
\<close>

theorem rcdJsonParser_unvalidated_witness:
  "parse_example ''null'' = Some JNull
   \<and> rcdJsonParser parse_example ''2022-10-21T10:00:00.000Z'' ''null'' = JNull
   \<and> jsonLogEmmit parse_example ''2022-10-21T10:00:00.000Z''
        \<lparr>listening = False, error_listener = False, events = [], kills = []\<rparr> ''null'' =
        Inr \<lparr>listening = False, error_listener = False, events = [Data JNull], kills = []\<rparr>
   \<and> jsonLogEmmit parse_example ''2022-10-21T10:00:00.000Z'' proc0 ''null'' =
        Inl (TypeError,
             \<lparr>listening = True, error_listener = False, events = [Data JNull], kills = []\<rparr>)
   \<and> jsonLogEmmit parse_example ''2022-10-21T10:00:00.000Z'' proc0 ''42'' =
        Inl (TypeError,
             \<lparr>listening = True, error_listener = False, events = [Data (JNum 42)], kills = []\<rparr>)
   \<and> is_LogMessage notice_example
   \<and> emitReady proc0 notice_example \<noteq> Inl (TypeError, proc0)"
proof -
  let ?u = "\<lparr>listening = False, error_listener = False, events = [], kills = []\<rparr>"
  let ?now = "''2022-10-21T10:00:00.000Z''"
  have a: "parse_example ''null'' = Some JNull" and b: "parse_example ''42'' = Some (JNum 42)"
    by (simp_all add: parse_example_def)
  have c: "is_LogMessage notice_example" by (simp add: examples_are_LogMessages)
  have l: "listening proc0" and u: "\<not> listening ?u"
    by (simp_all add: proc0_def)
  from rcdJsonParser_unvalidated[of parse_example "''null''" JNull ?now ?u] a u
  have 1: "rcdJsonParser parse_example ?now ''null'' = JNull"
    and "jsonLogEmmit parse_example ?now ?u ''null'' = Inr (?u\<lparr>events := events ?u @ [Data JNull]\<rparr>)"
    by blast+
  then have 2: "jsonLogEmmit parse_example ?now ?u ''null'' =
        Inr \<lparr>listening = False, error_listener = False, events = [Data JNull], kills = []\<rparr>"
    by simp
  from rcdJsonParser_unvalidated[of parse_example "''null''" JNull ?now proc0] a l
  have "jsonLogEmmit parse_example ?now proc0 ''null''
      = Inl (TypeError, proc0\<lparr>events := events proc0 @ [Data JNull]\<rparr>)"
    by blast
  then have 3: "jsonLogEmmit parse_example ?now proc0 ''null'' =
        Inl (TypeError,
             \<lparr>listening = True, error_listener = False, events = [Data JNull], kills = []\<rparr>)"
    by (simp add: proc0_def)
  from rcdJsonParser_unvalidated[of parse_example "''42''" "JNum 42" ?now proc0] b l
  have "jsonLogEmmit parse_example ?now proc0 ''42''
      = Inl (TypeError, proc0\<lparr>events := events proc0 @ [Data (JNum 42)]\<rparr>)"
    by blast
  then have 4: "jsonLogEmmit parse_example ?now proc0 ''42'' =
        Inl (TypeError,
             \<lparr>listening = True, error_listener = False, events = [Data (JNum 42)], kills = []\<rparr>)"
    by (simp add: proc0_def)
  from rcdJsonParser_unvalidated[of parse_example "''null''" notice_example ?now proc0] c
  have 5: "emitReady proc0 notice_example \<noteq> Inl (TypeError, proc0)"
    by blast
  from a 1 2 3 4 c 5 show ?thesis by (intro conjI)
qed

section \<open>The layers of the environment\<close>

lemma baseline_object:
  "object_of (baseline config) =
     [''RCLONE_AUTO_CONFIRM'' \<mapsto> ''false'',
      ''RCLONE_CONFIG'' \<mapsto> config,
      ''RCLONE_PASSWORD'' \<mapsto> ''false'',
      ''RCLONE_RC_SERVER_WRITE_TIMEOUT'' \<mapsto> ''8760h0m0s'',
      ''RCLONE_RC_SERVER_READ_TIMEOUT'' \<mapsto> ''8760h0m0s'',
      ''RCLONE_RC_WEB_GUI'' \<mapsto> ''false'',
      ''RCLONE_RC_NO_AUTH'' \<mapsto> ''false'',
      ''RCLONE_LOG_FORMAT'' \<mapsto> '''',
      ''RCLONE_LOG_LEVEL'' \<mapsto> ''NOTICE'']"
  by (simp add: object_of_def baseline_def)

text \<open>
  Claim C5. In the environment of the spawned daemon \<^verbatim>\<open>RCLONE_USE_JSON_LOG\<close> is
  \<^verbatim>\<open>true\<close> whatever the caller supplies; every other variable has the caller's value
  when the caller supplies one, and the value of the fixed baseline otherwise. The
  baseline is the nine variables of the source, with the resolved config file. This is
  the environment \<^verbatim>\<open>rcd\<close> spawns \<^verbatim>\<open>binary rcd\<close> with.
\<close>

theorem rcd_env_layers:
  "rcd_env config env ''RCLONE_USE_JSON_LOG'' = Some ''true''
   \<and> (\<forall>k. k \<noteq> ''RCLONE_USE_JSON_LOG'' \<longrightarrow>
         rcd_env config env k =
           (case (case env of None \<Rightarrow> Map.empty | Some e \<Rightarrow> e) k of
              Some v \<Rightarrow> Some v
            | None \<Rightarrow> object_of (baseline config) k))
   \<and> object_of (baseline config) =
       [''RCLONE_AUTO_CONFIRM'' \<mapsto> ''false'',
        ''RCLONE_CONFIG'' \<mapsto> config,
        ''RCLONE_PASSWORD'' \<mapsto> ''false'',
        ''RCLONE_RC_SERVER_WRITE_TIMEOUT'' \<mapsto> ''8760h0m0s'',
        ''RCLONE_RC_SERVER_READ_TIMEOUT'' \<mapsto> ''8760h0m0s'',
        ''RCLONE_RC_WEB_GUI'' \<mapsto> ''false'',
        ''RCLONE_RC_NO_AUTH'' \<mapsto> ''false'',
        ''RCLONE_LOG_FORMAT'' \<mapsto> '''',
        ''RCLONE_LOG_LEVEL'' \<mapsto> ''NOTICE'']
   \<and> (snd (getConfigFile sp d) = Inr config \<longrightarrow>
        (\<exists>s. rcd sp d env = Inr (s, proc0) \<and> environment s = rcd_env config env
             \<and> command s = binary d \<and> args s = [''rcd'']))"
proof -
  have a: "rcd_env config env ''RCLONE_USE_JSON_LOG'' = Some ''true''"
    by (simp add: rcd_env_def)
  have b: "\<forall>k. k \<noteq> ''RCLONE_USE_JSON_LOG'' \<longrightarrow>
         rcd_env config env k =
           (case (case env of None \<Rightarrow> Map.empty | Some e \<Rightarrow> e) k of
              Some v \<Rightarrow> Some v
            | None \<Rightarrow> object_of (baseline config) k)"
    by (auto simp: rcd_env_def map_add_def split: option.splits)
  have c: "snd (getConfigFile sp d) = Inr config \<longrightarrow>
        (\<exists>s. rcd sp d env = Inr (s, proc0) \<and> environment s = rcd_env config env
             \<and> command s = binary d \<and> args s = [''rcd''])"
    by (simp add: rcd_def)
  from a b baseline_object[of config] c show ?thesis by (intro conjI)
qed


text \<open>A caller that tries to switch JSON logging off and raises the log level.\<close>

theorem rcd_env_layers_witness:
  "rcd_env ''/etc/rclone.conf''
      (Some [''RCLONE_USE_JSON_LOG'' \<mapsto> ''false'', ''RCLONE_LOG_LEVEL'' \<mapsto> ''DEBUG''])
      ''RCLONE_USE_JSON_LOG'' = Some ''true''
   \<and> rcd_env ''/etc/rclone.conf''
      (Some [''RCLONE_USE_JSON_LOG'' \<mapsto> ''false'', ''RCLONE_LOG_LEVEL'' \<mapsto> ''DEBUG''])
      ''RCLONE_LOG_LEVEL'' = Some ''DEBUG''
   \<and> rcd_env ''/etc/rclone.conf''
      (Some [''RCLONE_USE_JSON_LOG'' \<mapsto> ''false'', ''RCLONE_LOG_LEVEL'' \<mapsto> ''DEBUG''])
      ''RCLONE_RC_SERVER_READ_TIMEOUT'' = Some ''8760h0m0s''
   \<and> (\<exists>s. rcd spawn_example \<lparr>binary = ''rclone'', configFile = Some ''/etc/rclone.conf''\<rparr> None
              = Inr (s, proc0)
          \<and> environment s = rcd_env ''/etc/rclone.conf'' None)"
proof -
  let ?env = "Some [''RCLONE_USE_JSON_LOG'' \<mapsto> ''false'', ''RCLONE_LOG_LEVEL'' \<mapsto> ''DEBUG'']"
  let ?d = "\<lparr>binary = ''rclone'', configFile = Some ''/etc/rclone.conf''\<rparr>"
  note t = rcd_env_layers[of "''/etc/rclone.conf''" ?env spawn_example ?d]
  have a: "rcd_env ''/etc/rclone.conf'' ?env ''RCLONE_USE_JSON_LOG'' = Some ''true''"
    using t by (elim conjE)
  have all: "\<forall>k. k \<noteq> ''RCLONE_USE_JSON_LOG'' \<longrightarrow>
         rcd_env ''/etc/rclone.conf'' ?env k =
           (case (case ?env of None \<Rightarrow> Map.empty | Some e \<Rightarrow> e) k of
              Some v \<Rightarrow> Some v
            | None \<Rightarrow> object_of (baseline ''/etc/rclone.conf'') k)"
    using t by (elim conjE)
  have base: "object_of (baseline ''/etc/rclone.conf'') ''RCLONE_RC_SERVER_READ_TIMEOUT'' = Some ''8760h0m0s''"
    using t by (elim conjE) simp
  have b: "rcd_env ''/etc/rclone.conf'' ?env ''RCLONE_LOG_LEVEL'' = Some ''DEBUG''"
    using all[rule_format, of "''RCLONE_LOG_LEVEL''"] by simp
  have c: "rcd_env ''/etc/rclone.conf'' ?env ''RCLONE_RC_SERVER_READ_TIMEOUT'' = Some ''8760h0m0s''"
    using all[rule_format, of "''RCLONE_RC_SERVER_READ_TIMEOUT''"] base by simp
  have cfg: "snd (getConfigFile spawn_example ?d) = Inr ''/etc/rclone.conf''"
    by (simp add: getConfigFile_def)
  have d: "\<exists>s. rcd spawn_example ?d None = Inr (s, proc0)
          \<and> environment s = rcd_env ''/etc/rclone.conf'' None"
    using rcd_env_layers[of "''/etc/rclone.conf''" None spawn_example ?d] cfg by blast
  from a b c d show ?thesis by (intro conjI)
qed

section \<open>What getVersion returns\<close>

lemma split_crlf_not_Nil: "split_crlf cur s \<noteq> []"
  by (induction cur s rule: split_crlf.induct) auto

lemma split_ws_not_Nil: "split_ws cur s \<noteq> []"
  by (induction cur s rule: split_ws.induct) auto

lemma version_token_Some: "\<exists>ver. version_token out err = Some ver"
proof -
  obtain line ls where "split_crlf [] (trim (output_toString out err)) = line # ls"
    using split_crlf_not_Nil[of "[]" "trim (output_toString out err)"]
    by (cases "split_crlf [] (trim (output_toString out err))") auto
  moreover obtain t ts where "split_ws [] line = t # ts"
    using split_ws_not_Nil[of "[]" line] by (cases "split_ws [] line") auto
  ultimately show ?thesis by (simp add: version_token_def)
qed

text \<open>On the output of a real \<^verbatim>\<open>rclone version\<close> the token is the version.\<close>

lemma version_token_example: "version_token version_output [] = Some ''v1.60.0''"
  by (simp add: version_token_def version_output_def output_toString_def trim_def is_space_def
      nl_def cr_def)

lemma getVersion_example:
  "getVersion clean_example spawn_example ''/dev/null'' driver_example = Inr (Some ''1.60.0'')"
  by (simp add: getVersion_def spawn_example_def version_token_example clean_example_def)

text \<open>
  Claim C6 says that \<^verbatim>\<open>getVersion\<close> fails with the version-detection error when the
  token does not parse as a version. The code returns what \<^verbatim>\<open>semver.clean\<close> returns:
  whenever the subprocess yields an output array there is a token, and the result is
  \<^verbatim>\<open>semver.clean\<close> of it, so \<^verbatim>\<open>null\<close> when \<^verbatim>\<open>semver.clean\<close> rejects the token;
  nothing is thrown.
\<close>

theorem getVersion_returns_null:
  "sp (binary d) [''version''] (Some [(''RCLONE_CONFIG'', devNull)]) = Output out err \<longrightarrow>
     (\<exists>ver. version_token out err = Some ver
        \<and> getVersion clean sp devNull d = Inr (clean ver)
        \<and> (clean ver = None \<longrightarrow> getVersion clean sp devNull d = Inr None))"
  using version_token_Some[of out err] by (auto simp: getVersion_def)

text \<open>A process that prints nothing: the token is \<^verbatim>\<open>,,\<close>, and the result \<^verbatim>\<open>null\<close>.\<close>

theorem getVersion_returns_null_witness:
  "spawn_silent (binary driver_example) [''version''] (Some [(''RCLONE_CONFIG'', ''/dev/null'')])
     = Output [] []
   \<and> version_token [] [] = Some '',,''
   \<and> clean_example '',,'' = None
   \<and> getVersion clean_example spawn_silent ''/dev/null'' driver_example = Inr None"
proof -
  have a: "spawn_silent (binary driver_example) [''version''] (Some [(''RCLONE_CONFIG'', ''/dev/null'')])
     = Output [] []"
    by (simp add: spawn_silent_def)
  have b: "version_token [] [] = Some '',,''"
    by (simp add: version_token_def output_toString_def trim_def is_space_def nl_def cr_def)
  have c: "clean_example '',,'' = None"
    by (simp add: clean_example_def)
  from getVersion_returns_null[of spawn_silent driver_example "''/dev/null''" "[]" "[]"
      clean_example] a b c
  have "getVersion clean_example spawn_silent ''/dev/null'' driver_example = Inr None"
    by auto
  with a b c show ?thesis by (intro conjI)
qed

section \<open>What getConfigFile returns\<close>

text \<open>
  Claim C7 as stated fails: on empty output \<^verbatim>\<open>getDefaultConfigFile\<close> returns the
  empty string, not an error.
\<close>

theorem getConfigFile_empty_output_counterexample:
  "getConfigFile spawn_silent driver_example = ([[''config'', ''file'']], Inr [])"
  by (simp add: getConfigFile_def getDefaultConfigFile_def driver_example_def spawn_silent_def
      output_toString_def trim_def is_space_def second_line_def nl_def)

text \<open>
  Claim C7, amended. A non-empty config file given at construction is returned as it
  is, with no subprocess call. Otherwise there is exactly one \<^verbatim>\<open>config file\<close> call;
  when it yields an output array, the result is the trimmed second line of the trimmed
  output text, which is the empty string when there is no second line; the error
  \<^verbatim>\<open>Cannot detect default Rclone file.\<close> is raised when the call throws or yields no
  output array.
\<close>

theorem getConfigFile_cases:
  "(\<forall>f. configFile d = Some f \<and> f \<noteq> [] \<longrightarrow> getConfigFile sp d = ([], Inr f))
   \<and> (configFile d = None \<or> configFile d = Some [] \<longrightarrow>
        fst (getConfigFile sp d) = [[''config'', ''file'']]
        \<and> (\<forall>out err. sp (binary d) [''config'', ''file''] None = Output out err \<longrightarrow>
              snd (getConfigFile sp d) =
                Inr (trim (second_line (split_on nl [] (trim (output_toString out err))))))
        \<and> (sp (binary d) [''config'', ''file''] None = NoOutput
             \<or> sp (binary d) [''config'', ''file''] None = Throws \<longrightarrow>
              snd (getConfigFile sp d) = Inl (Error ''Cannot detect default Rclone file.'')))
   \<and> second_line [] = [] \<and> (\<forall>l. second_line [l] = [])"
  by (auto simp: getConfigFile_def getDefaultConfigFile_def second_line_def)

text \<open>An explicit file, the output of a real \<^verbatim>\<open>rclone config file\<close>, and a missing binary.\<close>

theorem getConfigFile_cases_witness:
  "getConfigFile spawn_example \<lparr>binary = ''rclone'', configFile = Some ''/etc/rclone.conf''\<rparr>
     = ([], Inr ''/etc/rclone.conf'')
   \<and> getConfigFile spawn_example driver_example
     = ([[''config'', ''file'']], Inr ''/home/user/.config/rclone/rclone.conf'')
   \<and> getConfigFile spawn_missing driver_example
     = ([[''config'', ''file'']], Inl (Error ''Cannot detect default Rclone file.''))"
proof -
  have a: "getConfigFile spawn_example \<lparr>binary = ''rclone'', configFile = Some ''/etc/rclone.conf''\<rparr>
     = ([], Inr ''/etc/rclone.conf'')"
    using getConfigFile_cases[of "\<lparr>binary = ''rclone'', configFile = Some ''/etc/rclone.conf''\<rparr>"
        spawn_example]
    by simp
  have none: "configFile driver_example = None"
    by (simp add: driver_example_def)
  have out: "spawn_example (binary driver_example) [''config'', ''file''] None
      = Output config_file_output []"
    by (simp add: spawn_example_def)
  have line: "trim (second_line (split_on nl [] (trim (output_toString config_file_output []))))
      = ''/home/user/.config/rclone/rclone.conf''"
    by (simp add: config_file_output_def output_toString_def trim_def is_space_def
        second_line_def nl_def)
  have b: "getConfigFile spawn_example driver_example
     = ([[''config'', ''file'']], Inr ''/home/user/.config/rclone/rclone.conf'')"
    using getConfigFile_cases[of driver_example spawn_example] none out line
    by (simp add: prod_eq_iff)
  have miss: "spawn_missing (binary driver_example) [''config'', ''file''] None = NoOutput"
    by (simp add: spawn_missing_def)
  have c: "getConfigFile spawn_missing driver_example
     = ([[''config'', ''file'']], Inl (Error ''Cannot detect default Rclone file.''))"
    using getConfigFile_cases[of driver_example spawn_missing] none miss
    by (simp add: prod_eq_iff)
  from a b c show ?thesis by (intro conjI)
qed

section \<open>The request of remoteCommand\<close>

lemma object_truthy: "truthy (JObj kvs)" "truthy (JArr xs)"
  by simp_all

text \<open>
  Claim C8 as stated fails in two places. With no auth the \<^verbatim>\<open>headers\<close> object still has
  the property \<^verbatim>\<open>Authorization\<close>, with the value \<^verbatim>\<open>null\<close>, and an Authorization header
  with the text \<^verbatim>\<open>null\<close> is sent. With the payload \<^verbatim>\<open>0\<close> the body is the
  serialization of the empty object, not of the payload.
\<close>

theorem remoteCommand_claim_counterexample:
  "map sent_headers
      (remoteCommand base64_example stringify_example
         \<lparr>auth = None, uri = ''http://127.0.0.1:5572/''\<rparr> ''core/version'' None)
     = [[(''Authorization'', ''null''), (''Content-Type'', ''application/json'')]]
   \<and> map body
      (remoteCommand base64_example stringify_example
         \<lparr>auth = None, uri = ''http://127.0.0.1:5572/''\<rparr> ''core/version'' (Some (JNum 0)))
     = [''{}'']
   \<and> stringify_example (JNum 0) = ''0''"
  by (simp add: remoteCommand_def authHeader_def payload_or_empty_def sent_headers_def
      header_text_def stringify_example_def)

text \<open>
  Claim C8, amended. \<^verbatim>\<open>remoteCommand\<close> calls \<^verbatim>\<open>fetch\<close> exactly once: with the server's
  uri followed by the endpoint, method POST, the Content-Type \<^verbatim>\<open>application/json\<close>, and
  as body the serialization of the payload when the payload is truthy, as every object
  and array is, and of the empty object when the payload is left out or falsy. When
  auth is not empty, the Authorization header sent is \<^verbatim>\<open>Basic\<close> followed by the base64
  encoding of auth.
\<close>

theorem remoteCommand_request:
  "\<exists>r. remoteCommand base64 stringify server endpoint payload = [r]
     \<and> url r = uri server @ endpoint
     \<and> http_method r = ''POST''
     \<and> map_of (sent_headers r) ''Content-Type'' = Some ''application/json''
     \<and> (payload = None \<longrightarrow> body r = stringify (JObj []))
     \<and> (\<forall>v. payload = Some v \<and> truthy v \<longrightarrow> body r = stringify v)
     \<and> (\<forall>v. payload = Some v \<and> \<not> truthy v \<longrightarrow> body r = stringify (JObj []))
     \<and> (\<forall>kvs. truthy (JObj kvs)) \<and> (\<forall>xs. truthy (JArr xs))
     \<and> (\<forall>a. auth server = Some a \<and> a \<noteq> [] \<longrightarrow>
           map_of (sent_headers r) ''Authorization'' = Some (''Basic '' @ base64 a))"
  by (auto simp: remoteCommand_def authHeader_def payload_or_empty_def sent_headers_def
      header_text_def)

text \<open>A call with credentials and a payload, one with a falsy payload, and one with none.\<close>

theorem remoteCommand_request_witness:
  "(\<exists>r. remoteCommand base64_example stringify_example
          \<lparr>auth = Some ''user:pass'', uri = ''http://127.0.0.1:5572/''\<rparr> ''operations/list''
          (Some (JObj [(''fs'', JStr ''remote:'')])) = [r]
        \<and> url r = ''http://127.0.0.1:5572/operations/list''
        \<and> http_method r = ''POST''
        \<and> sent_headers r = [(''Authorization'', ''Basic dXNlcjpwYXNz''),
                             (''Content-Type'', ''application/json'')]
        \<and> body r = ''{\"fs\":\"remote:\"}'')
   \<and> (\<exists>r. remoteCommand base64_example stringify_example
          \<lparr>auth = Some ''user:pass'', uri = ''http://127.0.0.1:5572/''\<rparr> ''core/version''
          (Some (JNum 0)) = [r]
        \<and> body r = ''{}'')
   \<and> (\<exists>r. remoteCommand base64_example stringify_example
          \<lparr>auth = Some ''user:pass'', uri = ''http://127.0.0.1:5572/''\<rparr> ''core/version''
          None = [r]
        \<and> body r = ''{}'')"
proof -
  let ?s = "\<lparr>auth = Some ''user:pass'', uri = ''http://127.0.0.1:5572/''\<rparr>"
  let ?p = "Some (JObj [(''fs'', JStr ''remote:'')])"
  from remoteCommand_request[of base64_example stringify_example ?s "''operations/list''" ?p]
  obtain r where r: "remoteCommand base64_example stringify_example ?s ''operations/list'' ?p = [r]"
    and u: "url r = uri ?s @ ''operations/list''" and m: "http_method r = ''POST''"
    and b: "\<forall>v. ?p = Some v \<and> truthy v \<longrightarrow> body r = stringify_example v"
    and h: "\<forall>a. auth ?s = Some a \<and> a \<noteq> [] \<longrightarrow>
           map_of (sent_headers r) ''Authorization'' = Some (''Basic '' @ base64_example a)"
    by (elim exE conjE) (rule that; assumption)
  from b have b': "body r = ''{\"fs\":\"remote:\"}''"
    by (simp add: stringify_example_def)
  from h have h': "map_of (sent_headers r) ''Authorization'' = Some ''Basic dXNlcjpwYXNz''"
    by (simp add: base64_example_def)
  have "sent_headers r = [(''Authorization'', header_text (authHeader base64_example ?s)),
                          (''Content-Type'', ''application/json'')]"
    using r by (auto simp: remoteCommand_def sent_headers_def header_text_def)
  with h' have h'': "sent_headers r = [(''Authorization'', ''Basic dXNlcjpwYXNz''),
                             (''Content-Type'', ''application/json'')]"
    by simp
  from r u m h'' b' have 1: "\<exists>r. remoteCommand base64_example stringify_example ?s
          ''operations/list'' ?p = [r]
        \<and> url r = ''http://127.0.0.1:5572/operations/list''
        \<and> http_method r = ''POST''
        \<and> sent_headers r = [(''Authorization'', ''Basic dXNlcjpwYXNz''),
                             (''Content-Type'', ''application/json'')]
        \<and> body r = ''{\"fs\":\"remote:\"}''"
    by (intro exI[of _ r]) simp
  from remoteCommand_request[of base64_example stringify_example ?s "''core/version''"
      "Some (JNum 0)"]
  obtain r0 where "remoteCommand base64_example stringify_example ?s ''core/version''
          (Some (JNum 0)) = [r0]"
    and "\<forall>v. Some (JNum 0) = Some v \<and> \<not> truthy v \<longrightarrow> body r0 = stringify_example (JObj [])"
    by (elim exE conjE) (rule that; assumption)
  then have 2: "\<exists>r. remoteCommand base64_example stringify_example ?s ''core/version''
          (Some (JNum 0)) = [r] \<and> body r = ''{}''"
    by (intro exI[of _ r0]) (simp add: stringify_example_def)
  from remoteCommand_request[of base64_example stringify_example ?s "''core/version''" None]
  obtain rn where "remoteCommand base64_example stringify_example ?s ''core/version'' None = [rn]"
    and "None = (None :: json option) \<longrightarrow> body rn = stringify_example (JObj [])"
    by (elim exE conjE) (rule that; assumption)
  then have 3: "\<exists>r. remoteCommand base64_example stringify_example ?s ''core/version''
          None = [r] \<and> body r = ''{}''"
    by (intro exI[of _ rn]) (simp add: stringify_example_def)
  from 1 2 3 show ?thesis by (intro conjI)
qed

end
